theory Spec2Isabelle
  imports Main
begin

section \<open>Python values, errors and the environment\<close>

text \<open>
  The development embeds \<^verbatim>\<open>python/graphstorm/wholegraph/wholegraph.py\<close>. Every
  \<^verbatim>\<open>raise\<close>, failed \<^verbatim>\<open>assert\<close> and failing built-in operation of the source is a
  value of the type \<open>error\<close>. The \<^verbatim>\<open>RuntimeError\<close> of
  \<^verbatim>\<open>convert_feat_to_wholegraph\<close> keeps the two values its message is formatted from: the
  feature key and the \<^verbatim>\<open>keys()\<close> of the mapping that was searched.
\<close>

datatype error =
    RuntimeError_UnknownFeature string "string list"
  | RuntimeError_OptimizerExists
  | KeyError string
  | KeyError_int nat
  | IndexError
  | UnboundLocalError string
  | NameError string
  | AssertionError string
  | ImportError string
  | ZeroDivisionError
  | FileNotFoundError string string
  | TorchError
  | ServiceError
  | AttributeError string

text \<open>
  A torch tensor of at least one dimension: the string of its dtype, the sizes of the
  dimensions after the first, and its rows along dimension 0.
\<close>

datatype tensor = Tensor (t_dtype: string) (t_tail: "int list") (t_rows: "int list list")

definition t_shape :: "tensor \<Rightarrow> int list" where
  "t_shape t = int (length (t_rows t)) # t_tail t"

text \<open>
  \<^verbatim>\<open>th.concat(ts, dim=0)\<close>. torch raises on an empty sequence. It leaves out every operand
  of shape \<open>(0,)\<close>, requires the other operands to agree in the sizes after the first, and
  returns their rows in order; when every operand has shape \<open>(0,)\<close> so has the result. This
  is what the model computes for operands of one dtype. Operands of several dtypes are
  promoted by torch to a common dtype and converted; the promotion table and the
  conversions are torch's, and the result on such operands is the parameter \<open>mix\<close>.
\<close>

type_synonym mixed_cat = "tensor list \<Rightarrow> error + tensor"

definition same_dtype :: "tensor list \<Rightarrow> bool" where
  "same_dtype ts = (case ts of [] \<Rightarrow> True | t # us \<Rightarrow> list_all (\<lambda>u. t_dtype u = t_dtype t) us)"

definition cat_skips :: "tensor \<Rightarrow> bool" where
  "cat_skips t = (t_tail t = [] \<and> t_rows t = [])"

definition th_concat :: "mixed_cat \<Rightarrow> tensor list \<Rightarrow> error + tensor" where
  "th_concat mix ts =
     (if ts = [] then Inl TorchError
      else if \<not> same_dtype ts then mix ts
      else
        (case filter (\<lambda>t. \<not> cat_skips t) ts of
           [] \<Rightarrow> Inr (Tensor (t_dtype (hd ts)) [] [])
         | u # us \<Rightarrow>
             if list_all (\<lambda>v. t_tail v = t_tail u) us
             then Inr (Tensor (t_dtype u) (t_tail u) (concat (map t_rows (u # us))))
             else Inl TorchError))"

text \<open>
  A Python dictionary with string keys keeps insertion order, which \<^verbatim>\<open>keys()\<close> shows:
  an association list.
\<close>

type_synonym feat_dict = "(string \<times> tensor) list"

definition dict_keys :: "feat_dict \<Rightarrow> string list" where
  "dict_keys d = map fst d"

definition dict_contains :: "feat_dict \<Rightarrow> string \<Rightarrow> bool" where
  "dict_contains d k = (k \<in> set (dict_keys d))"

definition dict_get :: "feat_dict \<Rightarrow> string \<Rightarrow> error + tensor" where
  "dict_get d k = (case map_of d k of None \<Rightarrow> Inl (KeyError k) | Some t \<Rightarrow> Inr t)"

definition dict_del :: "feat_dict \<Rightarrow> string \<Rightarrow> error + feat_dict" where
  "dict_del d k =
     (if dict_contains d k then Inr (filter (\<lambda>kv. fst kv \<noteq> k) d) else Inl (KeyError k))"

text \<open>
  What the module leaves behind: the metadata dictionary the caller passes in, the shard
  files under \<^verbatim>\<open><folder>/wholegraph\<close> and the feature files of the partition directories.
  A shard file is described by what the source hands to the sharded-memory service: the shape
  and dtype the shard was created with and the rows copied into it. A shard file is keyed by
  the three arguments of \<^verbatim>\<open>get_part_file_name\<close>, a feature file by its directory under
  \<^verbatim>\<open>folder\<close> and its file name. \<open>listdir\<close> is \<^verbatim>\<open>os.listdir(folder)\<close>, each entry with
  the answer of \<^verbatim>\<open>os.path.isdir\<close>.
\<close>

record meta_entry =
  m_shape :: "int list"
  m_dtype :: string

record wg_shard =
  s_shape :: "int list"
  s_dtype :: string
  s_rows :: "int list list"

type_synonym shard_name = "string \<times> int \<times> int"

record store =
  listdir :: "(string \<times> bool) list"
  pfiles :: "(string \<times> string) \<rightharpoonup> feat_dict"
  metadata :: "string \<rightharpoonup> meta_entry"
  wgfiles :: "shard_name \<rightharpoonup> wg_shard"

text \<open>
  The sharded-memory service is outside the module. Its behaviour on one shard (create,
  copy, write to file, destroy) is a parameter: the sequence completes, or it raises before
  the file is written, or it raises after.
\<close>

datatype outcome = Done | FailsBeforeWrite | FailsAfterWrite

type_synonym service = "shard_name \<Rightarrow> wg_shard \<Rightarrow> outcome"

section \<open>wholegraph\_processing\<close>

text \<open>\<^verbatim>\<open>-(rows // -num_parts)\<close>; Python's \<^verbatim>\<open>//\<close> and \<open>div\<close> on \<open>int\<close> both round down.\<close>

definition subpart_size :: "int \<Rightarrow> int \<Rightarrow> int" where
  "subpart_size R N = - (R div (- N))"

definition shard_range :: "int \<Rightarrow> int \<Rightarrow> int \<Rightarrow> int \<times> int" where
  "shard_range R N part_num =
     (let st = part_num * subpart_size R N;
          en = (if part_num \<noteq> N - 1 then (part_num + 1) * subpart_size R N else R)
      in (st, en))"

text \<open>\<^verbatim>\<open>range(num_parts)\<close>.\<close>

definition py_range :: "int \<Rightarrow> int list" where
  "py_range n = map int [0..<nat n]"

definition shard_ranges :: "int \<Rightarrow> int \<Rightarrow> (int \<times> int) list" where
  "shard_ranges R N = map (shard_range R N) (py_range N)"

text \<open>A slice \<^verbatim>\<open>xs[st:end]\<close> of Python: negative bounds count from the end, all are clamped.\<close>

definition slice_bound :: "nat \<Rightarrow> int \<Rightarrow> nat" where
  "slice_bound n i = (if i < 0 then nat (int n + i) else min (nat i) n)"

definition py_slice :: "'a list \<Rightarrow> int \<Rightarrow> int \<Rightarrow> 'a list" where
  "py_slice xs st en =
     (let a = slice_bound (length xs) st; b = slice_bound (length xs) en
      in take (b - a) (drop a xs))"

definition str_replace_slash :: "string \<Rightarrow> string" where
  "str_replace_slash s = map (\<lambda>c. if c = CHR ''/'' then CHR ''~'' else c) s"

definition part_shard :: "tensor \<Rightarrow> int \<Rightarrow> int \<Rightarrow> wg_shard" where
  "part_shard whole N part_num =
     (let (st, en) = shard_range (int (length (t_rows whole))) N part_num
      in \<lparr>s_shape = (en - st) # t_tail whole, s_dtype = t_dtype whole,
          s_rows = py_slice (t_rows whole) st en\<rparr>)"

definition part_name :: "string \<Rightarrow> int \<Rightarrow> int \<Rightarrow> shard_name" where
  "part_name feat N part_num = (str_replace_slash feat, part_num, N)"

fun write_parts :: "service \<Rightarrow> tensor \<Rightarrow> string \<Rightarrow> int \<Rightarrow> int list \<Rightarrow> store \<Rightarrow> error option \<times> store" where
  "write_parts svc whole feat N [] s = (None, s)"
| "write_parts svc whole feat N (p # ps) s =
     (let nm = part_name feat N p; sh = part_shard whole N p
      in case svc nm sh of
           Done \<Rightarrow> write_parts svc whole feat N ps (s\<lparr>wgfiles := (wgfiles s)(nm \<mapsto> sh)\<rparr>)
         | FailsBeforeWrite \<Rightarrow> (Some ServiceError, s)
         | FailsAfterWrite \<Rightarrow> (Some ServiceError, s\<lparr>wgfiles := (wgfiles s)(nm \<mapsto> sh)\<rparr>))"

definition wholegraph_processing ::
  "service \<Rightarrow> tensor \<Rightarrow> string \<Rightarrow> int \<Rightarrow> store \<Rightarrow> error option \<times> store" where
  "wholegraph_processing svc whole feat num_parts s =
     (let s1 = s\<lparr>metadata := (metadata s)(feat \<mapsto>
                   \<lparr>m_shape = t_shape whole, m_dtype = t_dtype whole\<rparr>)\<rparr>
      in if num_parts = 0 then (Some ZeroDivisionError, s1)
         else write_parts svc whole feat num_parts (py_range num_parts) s1)"

section \<open>The partition directories and their feature files\<close>

text \<open>\<^verbatim>\<open>f"part{part}"\<close> prints the partition number in decimal.\<close>

function str_nat :: "nat \<Rightarrow> string" where
  "str_nat n =
     (if n < 10 then [''0123456789'' ! n]
      else str_nat (n div 10) @ [''0123456789'' ! (n mod 10)])"
  by pat_completeness auto
termination
  by (relation "measure id") auto

declare str_nat.simps [simp del]

definition part_dir :: "nat \<Rightarrow> string" where
  "part_dir part = ''part'' @ str_nat part"

definition is_digit :: "char \<Rightarrow> bool" where
  "is_digit c = (c \<in> set ''0123456789'')"

text \<open>
  \<^verbatim>\<open>re.compile(r"^part[0-9]+$").match(f)\<close>. In Python \<^verbatim>\<open>$\<close> also matches just before
  a newline that ends the string.
\<close>

definition folder_pattern_match :: "string \<Rightarrow> bool" where
  "folder_pattern_match f =
     (take 4 f = ''part'' \<and>
      (let r = drop 4 f;
           ds = (if r \<noteq> [] \<and> last r = CHR 0x0A then butlast r else r)
       in ds \<noteq> [] \<and> list_all is_digit ds))"

text \<open>
  \<^verbatim>\<open>int(x.split("part")[1])\<close> on a name that matched: the digits after the prefix
  (\<^verbatim>\<open>int\<close> ignores the newline).
\<close>

definition part_key :: "string \<Rightarrow> int" where
  "part_key x =
     int (fold (\<lambda>c n. 10 * n + (of_char c - 48)) (takeWhile is_digit (drop 4 x)) 0)"

text \<open>The list \<^verbatim>\<open>part_files\<close>; \<^verbatim>\<open>sorted\<close> and \<open>sort_key\<close> are both stable.\<close>

definition part_files_of :: "store \<Rightarrow> string list" where
  "part_files_of s =
     sort_key part_key
       (map fst (filter (\<lambda>(f, isdir). isdir \<and> folder_pattern_match f) (listdir s)))"

definition is_dir :: "store \<Rightarrow> string \<Rightarrow> bool" where
  "is_dir s d = ((d, True) \<in> set (listdir s))"

definition load_tensors :: "store \<Rightarrow> string \<Rightarrow> string \<Rightarrow> error + feat_dict" where
  "load_tensors s d f =
     (case pfiles s (d, f) of None \<Rightarrow> Inl (FileNotFoundError d f) | Some m \<Rightarrow> Inr m)"

definition save_tensors :: "string \<Rightarrow> string \<Rightarrow> feat_dict \<Rightarrow> store \<Rightarrow> error + store" where
  "save_tensors d f m s =
     (if is_dir s d then Inr (s\<lparr>pfiles := (pfiles s)((d, f) \<mapsto> m)\<rparr>)
      else Inl (FileNotFoundError d f))"

text \<open>
  \<^verbatim>\<open>os.rename\<close> of a file inside one directory, as POSIX has it: a missing source raises,
  an existing destination is replaced silently.
\<close>

definition os_rename :: "string \<Rightarrow> string \<Rightarrow> string \<Rightarrow> store \<Rightarrow> error + store" where
  "os_rename d src dst s =
     (case pfiles s (d, src) of
        None \<Rightarrow> Inl (FileNotFoundError d src)
      | Some m \<Rightarrow> Inr (s\<lparr>pfiles := ((pfiles s)((d, src) := None))((d, dst) \<mapsto> m)\<rparr>))"

section \<open>trim\_feat\_files\<close>

text \<open>
  The first argument of \<^verbatim>\<open>trim_feat_files\<close> is whatever the caller passes; the function
  subscripts it with the partition number. The high-memory path passes the list of the
  partitions' mappings, the low-memory path the one mapping it has just loaded, whose keys
  are strings.
\<close>

datatype feats_arg = PartList "feat_dict list" | OneDict feat_dict

fun subscript :: "feats_arg \<Rightarrow> nat \<Rightarrow> error + feat_dict" where
  "subscript (PartList ds) i = (if i < length ds then Inr (ds ! i) else Inl IndexError)"
| "subscript (OneDict d) i = Inl (KeyError_int i)"

definition trim_feat_files :: "feats_arg \<Rightarrow> string \<Rightarrow> nat \<Rightarrow> store \<Rightarrow> error option \<times> store" where
  "trim_feat_files trimmed_feats file_name part s =
     (case subscript trimmed_feats part of
        Inl e \<Rightarrow> (Some e, s)
      | Inr feats \<Rightarrow>
          (case save_tensors (part_dir part) (''new_'' @ file_name) feats s of
             Inl e \<Rightarrow> (Some e, s)
           | Inr s1 \<Rightarrow>
               (case os_rename (part_dir part) file_name (file_name @ ''.bak'') s1 of
                  Inl e \<Rightarrow> (Some e, s1)
                | Inr s2 \<Rightarrow>
                    (case os_rename (part_dir part) (''new_'' @ file_name) file_name s2 of
                       Inl e \<Rightarrow> (Some e, s2)
                     | Inr s3 \<Rightarrow> (None, s3)))))"

section \<open>convert\_feat\_to\_wholegraph\<close>

text \<open>
  The two nested loops over \<^verbatim>\<open>fname_dict.items()\<close> and its lists visit the keys
  \<^verbatim>\<open>type_name + "/" + feat\<close> in this order.
\<close>

definition requested_keys :: "(string \<times> string list) list \<Rightarrow> string list" where
  "requested_keys fname_dict =
     concat (map (\<lambda>(type_name, feats). map (\<lambda>feat. type_name @ ''/'' @ feat) feats) fname_dict)"

fun load_all :: "store \<Rightarrow> string \<Rightarrow> string list \<Rightarrow> error + feat_dict list" where
  "load_all s file_name [] = Inr []"
| "load_all s file_name (name # names) =
     (case load_tensors s name file_name of
        Inl e \<Rightarrow> Inl e
      | Inr d \<Rightarrow> (case load_all s file_name names of Inl e \<Rightarrow> Inl e | Inr ds \<Rightarrow> Inr (d # ds)))"

text \<open>\<^verbatim>\<open>tuple(t[feat] for t in feats_data)\<close> and \<^verbatim>\<open>for t in feats_data: del t[feat]\<close>.\<close>

fun get_all :: "string \<Rightarrow> feat_dict list \<Rightarrow> error + tensor list" where
  "get_all feat [] = Inr []"
| "get_all feat (d # ds) =
     (case dict_get d feat of
        Inl e \<Rightarrow> Inl e
      | Inr t \<Rightarrow> (case get_all feat ds of Inl e \<Rightarrow> Inl e | Inr ts \<Rightarrow> Inr (t # ts)))"

fun del_all :: "string \<Rightarrow> feat_dict list \<Rightarrow> error + feat_dict list" where
  "del_all feat [] = Inr []"
| "del_all feat (d # ds) =
     (case dict_del d feat of
        Inl e \<Rightarrow> Inl e
      | Inr d' \<Rightarrow> (case del_all feat ds of Inl e \<Rightarrow> Inl e | Inr ds' \<Rightarrow> Inr (d' # ds')))"

definition high_mem_feat ::
  "mixed_cat \<Rightarrow> service \<Rightarrow> int \<Rightarrow> string \<Rightarrow> feat_dict list \<Rightarrow> store \<Rightarrow> error option \<times> feat_dict list \<times> store" where
  "high_mem_feat mix svc num_parts feat feats_data s =
     (case feats_data of
        [] \<Rightarrow> (Some IndexError, feats_data, s)
      | d0 # _ \<Rightarrow>
          if \<not> dict_contains d0 feat
          then (Some (RuntimeError_UnknownFeature feat (dict_keys d0)), feats_data, s)
          else
            (case get_all feat feats_data of
               Inl e \<Rightarrow> (Some e, feats_data, s)
             | Inr ts \<Rightarrow>
                 (case th_concat mix ts of
                    Inl e \<Rightarrow> (Some e, feats_data, s)
                  | Inr whole \<Rightarrow>
                      (case del_all feat feats_data of
                         Inl e \<Rightarrow> (Some e, feats_data, s)
                       | Inr feats_data' \<Rightarrow>
                           (case wholegraph_processing svc whole feat num_parts s of
                              (r, s') \<Rightarrow> (r, feats_data', s'))))))"

fun high_mem_loop ::
  "mixed_cat \<Rightarrow> service \<Rightarrow> int \<Rightarrow> string list \<Rightarrow> feat_dict list \<Rightarrow> store \<Rightarrow> error option \<times> feat_dict list \<times> store" where
  "high_mem_loop mix svc num_parts [] feats_data s = (None, feats_data, s)"
| "high_mem_loop mix svc num_parts (feat # feats) feats_data s =
     (case high_mem_feat mix svc num_parts feat feats_data s of
        (Some e, r) \<Rightarrow> (Some e, r)
      | (None, feats_data', s') \<Rightarrow> high_mem_loop mix svc num_parts feats feats_data' s')"

fun trim_all :: "feats_arg \<Rightarrow> string \<Rightarrow> nat list \<Rightarrow> store \<Rightarrow> error option \<times> store" where
  "trim_all trimmed_feats file_name [] s = (None, s)"
| "trim_all trimmed_feats file_name (part # parts) s =
     (case trim_feat_files trimmed_feats file_name part s of
        (Some e, s') \<Rightarrow> (Some e, s')
      | (None, s') \<Rightarrow> trim_all trimmed_feats file_name parts s')"

definition convert_high_mem ::
  "mixed_cat \<Rightarrow> service \<Rightarrow> (string \<times> string list) list \<Rightarrow> string \<Rightarrow> store \<Rightarrow> error option \<times> store" where
  "convert_high_mem mix svc fname_dict file_name s =
     (case load_all s file_name (part_files_of s) of
        Inl e \<Rightarrow> (Some e, s)
      | Inr feats_data \<Rightarrow>
          (case high_mem_loop mix svc (int (length feats_data)) (requested_keys fname_dict) feats_data s of
             (Some e, _, s') \<Rightarrow> (Some e, s')
           | (None, feats_data', s') \<Rightarrow>
               trim_all (PartList feats_data') file_name [0..<length feats_data] s'))"

text \<open>
  The low-memory path. The inner loop over the partitions of one feature carries
  \<^verbatim>\<open>node_feats_data\<close> (\<open>None\<close> at first) and \<^verbatim>\<open>num_parts\<close>.
\<close>

fun low_mem_read ::
  "mixed_cat \<Rightarrow> store \<Rightarrow> string \<Rightarrow> string \<Rightarrow> string list \<Rightarrow> tensor option \<Rightarrow> int \<Rightarrow> error + (tensor option \<times> int)" where
  "low_mem_read mix s file_name feat [] node_feats_data num_parts = Inr (node_feats_data, num_parts)"
| "low_mem_read mix s file_name feat (name # names) node_feats_data num_parts =
     (case load_tensors s name file_name of
        Inl e \<Rightarrow> Inl e
      | Inr nfeat \<Rightarrow>
          if \<not> dict_contains nfeat feat
          then Inl (RuntimeError_UnknownFeature feat (dict_keys nfeat))
          else
            (case dict_get nfeat feat of
               Inl e \<Rightarrow> Inl e
             | Inr t \<Rightarrow>
                 (case node_feats_data of
                    None \<Rightarrow> low_mem_read mix s file_name feat names (Some t) (num_parts + 1)
                  | Some acc \<Rightarrow>
                      (case th_concat mix [acc, t] of
                         Inl e \<Rightarrow> Inl e
                       | Inr acc' \<Rightarrow>
                           low_mem_read mix s file_name feat names (Some acc') (num_parts + 1)))))"

text \<open>
  After the inner loop \<^verbatim>\<open>del nfeat\<close> raises when no partition was read, since the name
  was never bound; \<^verbatim>\<open>wholegraph_processing\<close> reads \<^verbatim>\<open>.shape\<close> of its first argument.
\<close>

definition low_mem_feat ::
  "mixed_cat \<Rightarrow> service \<Rightarrow> string \<Rightarrow> string list \<Rightarrow> string \<Rightarrow> store \<Rightarrow> error option \<times> store" where
  "low_mem_feat mix svc file_name part_files feat s =
     (case low_mem_read mix s file_name feat part_files None 0 of
        Inl e \<Rightarrow> (Some e, s)
      | Inr (node_feats_data, num_parts) \<Rightarrow>
          if part_files = [] then (Some (UnboundLocalError ''nfeat''), s)
          else
            (case node_feats_data of
               None \<Rightarrow> (Some (AttributeError ''shape''), s)
             | Some whole \<Rightarrow> wholegraph_processing svc whole feat num_parts s))"

fun low_mem_loop ::
  "mixed_cat \<Rightarrow> service \<Rightarrow> string \<Rightarrow> string list \<Rightarrow> string list \<Rightarrow> store \<Rightarrow> error option \<times> store" where
  "low_mem_loop mix svc file_name part_files [] s = (None, s)"
| "low_mem_loop mix svc file_name part_files (feat # feats) s =
     (case low_mem_feat mix svc file_name part_files feat s of
        (Some e, s') \<Rightarrow> (Some e, s')
      | (None, s') \<Rightarrow> low_mem_loop mix svc file_name part_files feats s')"

fun del_keys :: "string list \<Rightarrow> feat_dict \<Rightarrow> error + feat_dict" where
  "del_keys [] d = Inr d"
| "del_keys (feat # feats) d =
     (case dict_del d feat of Inl e \<Rightarrow> Inl e | Inr d' \<Rightarrow> del_keys feats d')"

text \<open>
  The final pass of the low-memory path: \<^verbatim>\<open>num_parts\<close> starts at 0 and is incremented
  before the call of \<^verbatim>\<open>trim_feat_files\<close>, which receives the loaded mapping itself.
\<close>

fun low_mem_trim ::
  "string list \<Rightarrow> string \<Rightarrow> string list \<Rightarrow> nat \<Rightarrow> store \<Rightarrow> error option \<times> store" where
  "low_mem_trim keys file_name [] num_parts s = (None, s)"
| "low_mem_trim keys file_name (name # names) num_parts s =
     (case load_tensors s name file_name of
        Inl e \<Rightarrow> (Some e, s)
      | Inr feats_data \<Rightarrow>
          (case del_keys keys feats_data of
             Inl e \<Rightarrow> (Some e, s)
           | Inr feats_data' \<Rightarrow>
               (case trim_feat_files (OneDict feats_data') file_name (num_parts + 1) s of
                  (Some e, s') \<Rightarrow> (Some e, s')
                | (None, s') \<Rightarrow> low_mem_trim keys file_name names (num_parts + 1) s')))"

definition convert_low_mem ::
  "mixed_cat \<Rightarrow> service \<Rightarrow> (string \<times> string list) list \<Rightarrow> string \<Rightarrow> store \<Rightarrow> error option \<times> store" where
  "convert_low_mem mix svc fname_dict file_name s =
     (case low_mem_loop mix svc file_name (part_files_of s) (requested_keys fname_dict) s of
        (Some e, s') \<Rightarrow> (Some e, s')
      | (None, s') \<Rightarrow>
          low_mem_trim (requested_keys fname_dict) file_name (part_files_of s) 0 s')"

definition convert_feat_to_wholegraph ::
  "mixed_cat \<Rightarrow> service \<Rightarrow> (string \<times> string list) list \<Rightarrow> string \<Rightarrow> bool \<Rightarrow> store \<Rightarrow> error option \<times> store" where
  "convert_feat_to_wholegraph mix svc fname_dict file_name use_low_mem s =
     (if \<not> use_low_mem then convert_high_mem mix svc fname_dict file_name s
      else convert_low_mem mix svc fname_dict file_name s)"



section \<open>load\_wg\_feat\<close>

text \<open>\<^verbatim>\<open>s.split(sep)\<close> for a separator of one character.\<close>

fun py_split :: "char \<Rightarrow> string \<Rightarrow> string list" where
  "py_split sep [] = [[]]"
| "py_split sep (c # cs) =
     (if c = sep then [] # py_split sep cs
      else (case py_split sep cs of [] \<Rightarrow> [[c]] | w # ws \<Rightarrow> (c # w) # ws))"

text \<open>
  \<^verbatim>\<open>load_wg_feat\<close> reads the metadata document and hands the sharded-memory service the
  arguments below (\<^verbatim>\<open>create_embedding\<close>, then \<^verbatim>\<open>from_file_prefix\<close>). The parameters
  are the flag \<^verbatim>\<open>WHOLEGRAPH_INIT\<close>, the attribute lookup \<^verbatim>\<open>getattr(th, _)\<close> and the
  parsed \<^verbatim>\<open>wholegraph/metadata.json\<close>.
\<close>

record 'd embedding_request =
  e_dtype :: 'd
  e_shape :: "int list"
  e_file_prefix :: string
  e_part_count :: int

definition embedding_shape :: "int list \<Rightarrow> int list" where
  "embedding_shape data_shape =
     (if length data_shape = 1 then [data_shape ! 0, 1] else data_shape)"

definition load_wg_feat ::
  "bool \<Rightarrow> (string \<rightharpoonup> 'd) \<Rightarrow> (string \<rightharpoonup> meta_entry) \<Rightarrow> int \<Rightarrow> string \<Rightarrow> string
     \<Rightarrow> error + 'd embedding_request" where
  "load_wg_feat wholegraph_init th_getattr wg_metadata num_parts type_name name =
     (if \<not> wholegraph_init then Inl (ImportError ''WholeGraph is not initialized yet.'')
      else
        (case wg_metadata (type_name @ ''/'' @ name) of
           None \<Rightarrow> Inl (KeyError (type_name @ ''/'' @ name))
         | Some entry \<Rightarrow>
             (let data_shape = m_shape entry; parts = py_split CHR ''.'' (m_dtype entry)
              in if length parts < 2 then Inl IndexError
                 else
                   (case th_getattr (parts ! 1) of
                      None \<Rightarrow> Inl (AttributeError (parts ! 1))
                    | Some dt \<Rightarrow>
                        Inr \<lparr>e_dtype = dt, e_shape = embedding_shape data_shape,
                             e_file_prefix = type_name @ ''~'' @ name,
                             e_part_count = num_parts\<rparr>))))"

section \<open>WholeGraphDistTensor\<close>

text \<open>
  The fields of the class. The native tensor, the optimizer and the module wrapper belong to
  the sharded-memory service and are type parameters; \<open>None\<close> is Python's \<^verbatim>\<open>None\<close>.
  The methods are embedded one by one. \<^verbatim>\<open>save_to_file\<close>, \<^verbatim>\<open>load_from_file\<close> and
  \<^verbatim>\<open>__setitem__\<close> are left out: nothing below needs them (no handle with a tensor ever
  exists), and the body of \<^verbatim>\<open>load_from_file\<close> in the source is unfinished (its lines 481
  to 483 are notes in prose, not statements).
\<close>

record ('t, 'o, 'm) dist_tensor =
  h_nnodes :: int
  h_embedding_dim :: int
  h_name :: string
  h_dtype :: string
  h_location :: string
  h_use_wg_optimizer :: bool
  h_tensor :: "'t option"
  h_module :: "'m option"
  h_optimizer :: "'o option"

text \<open>\<^verbatim>\<open>a <= b\<close> on Python strings: lexicographic on the code points.\<close>

fun str_le :: "string \<Rightarrow> string \<Rightarrow> bool" where
  "str_le [] b = True"
| "str_le (x # xs) [] = False"
| "str_le (x # xs) (y # ys) =
     (if x = y then str_le xs ys else (of_char x :: nat) < of_char y)"

text \<open>
  \<^verbatim>\<open>__init__\<close>. With \<^verbatim>\<open>use_wg_optimizer=False\<close> the source evaluates
  \<^verbatim>\<open>create_wg_dist_tensor(shape, dtype, location)\<close>. The module has no definition and no
  import of \<^verbatim>\<open>create_wg_dist_tensor\<close>; its only occurrences are this call and the one in
  \<^verbatim>\<open>attach_wg_optimizer\<close>. Looking the name up raises \<^verbatim>\<open>NameError\<close>. \<open>version\<close> is
  \<^verbatim>\<open>pylibwholegraph.__version__\<close>.
\<close>

definition WholeGraphDistTensor_init ::
  "string \<Rightarrow> int list \<Rightarrow> string \<Rightarrow> string \<Rightarrow> string \<Rightarrow> bool
     \<Rightarrow> error + ('t, 'o, 'm) dist_tensor" where
  "WholeGraphDistTensor_init version shape dtype name location use_wg_optimizer =
     (case shape of
        [] \<Rightarrow> Inl IndexError
      | [n] \<Rightarrow> Inl IndexError
      | n # d # _ \<Rightarrow>
          if \<not> str_le ''23.12.00'' version
          then Inl (AssertionError ''Please upgrade to the latest version of WholeGraph.'')
          else if use_wg_optimizer
          then Inr \<lparr>h_nnodes = n, h_embedding_dim = d, h_name = name, h_dtype = dtype,
                    h_location = location, h_use_wg_optimizer = use_wg_optimizer,
                    h_tensor = None, h_module = None, h_optimizer = None\<rparr>
          else Inl (NameError ''create_wg_dist_tensor''))"

text \<open>
  \<^verbatim>\<open>attach_wg_optimizer\<close>. After \<^verbatim>\<open>self._optimizer = wg_optimizer\<close> the source evaluates
  \<^verbatim>\<open>create_wg_dist_tensor(shape, dtype, location, optimizer = wg_optimizer)\<close>. Python
  looks the function up first, and \<^verbatim>\<open>create_wg_dist_tensor\<close> is not bound (nor are the
  arguments \<^verbatim>\<open>shape\<close>, \<^verbatim>\<open>dtype\<close> and \<^verbatim>\<open>location\<close>, in the method or in the module):
  the call raises \<^verbatim>\<open>NameError\<close> and the two assignments after it are never reached. The
  method returns nothing; the model returns the handle as the call leaves it.
\<close>

definition attach_wg_optimizer ::
  "('t, 'o, 'm) dist_tensor \<Rightarrow> 'o option \<Rightarrow> error option \<times> ('t, 'o, 'm) dist_tensor" where
  "attach_wg_optimizer self wg_optimizer =
     (if \<not> h_use_wg_optimizer self
      then (Some (AssertionError
              ''Please create WholeGraphDistTensor tensor with attach_optimizer=True.''), self)
      else if h_optimizer self = None
      then
        (if h_tensor self \<noteq> None
         then (Some (AssertionError
                 ''Please create optimizer before creating WholeGraph tensor.''), self)
         else if h_module self \<noteq> None
         then (Some (AssertionError
                 ''Please create optimizer before creating WholeGraph embedding module.''), self)
         else (Some (NameError ''create_wg_dist_tensor''), self\<lparr>h_optimizer := wg_optimizer\<rparr>))
      else (Some RuntimeError_OptimizerExists, self))"

text \<open>
  \<^verbatim>\<open>__getitem__\<close>: the assertion of the source, then \<^verbatim>\<open>idx.cuda()\<close> and the service's
  \<^verbatim>\<open>gather\<close>; what these two calls return or raise is the parameter \<open>gather\<close>.
\<close>

definition WholeGraphDistTensor_getitem ::
  "('t \<Rightarrow> 'i \<Rightarrow> error + 'v) \<Rightarrow> ('t, 'o, 'm) dist_tensor \<Rightarrow> 'i \<Rightarrow> error + 'v" where
  "WholeGraphDistTensor_getitem gather self idx =
     (case h_tensor self of
        None \<Rightarrow> Inl (AssertionError ''Please create WholeGraph tensor first.'')
      | Some t \<Rightarrow> gather t idx)"

section \<open>Concrete inputs\<close>

text \<open>A sharded-memory service that fails on one shard number, and one that never fails.\<close>

definition fails_at :: "int \<Rightarrow> service" where
  "fails_at i nm sh = (if fst (snd nm) = i then FailsBeforeWrite else Done)"

definition always_done :: service where
  "always_done nm sh = Done"

text \<open>Five rows of one cell each.\<close>

definition five_rows :: tensor where
  "five_rows = Tensor ''torch.int64'' [] [[10], [11], [12], [13], [14]]"

text \<open>The handle that \<^verbatim>\<open>WholeGraphDistTensor((10, 4), th.float32, "emb", "cpu", True)\<close> builds.\<close>

definition unbound_handle :: "(tensor, nat, unit) dist_tensor" where
  "unbound_handle =
     \<lparr>h_nnodes = 10, h_embedding_dim = 4, h_name = ''emb'', h_dtype = ''torch.float32'',
      h_location = ''cpu'', h_use_wg_optimizer = True, h_tensor = None, h_module = None,
      h_optimizer = None\<rparr>"

text \<open>
  Two partitions with the node features \<^verbatim>\<open>n/x\<close> (three rows in all, two wide) and
  \<^verbatim>\<open>n/y\<close>, and nothing converted yet.
\<close>

definition two_parts :: store where
  "two_parts =
     \<lparr>listdir = [(''part1'', True), (''part0'', True), (''wholegraph'', True)],
      pfiles =
        [(''part0'', ''node_feat.dgl'') \<mapsto>
           [(''n/x'', Tensor ''torch.float32'' [2] [[1, 2], [3, 4]]),
            (''n/y'', Tensor ''torch.int64'' [] [[7], [8]])],
         (''part1'', ''node_feat.dgl'') \<mapsto>
           [(''n/x'', Tensor ''torch.float32'' [2] [[5, 6]]),
            (''n/y'', Tensor ''torch.int64'' [] [[9]])]],
      metadata = Map.empty,
      wgfiles = Map.empty\<rparr>"

text \<open>A gather that reads the rows of a \<open>tensor\<close> by number.\<close>

definition gather_rows :: "tensor \<Rightarrow> nat list \<Rightarrow> error + int list list" where
  "gather_rows t idx = Inr (map (\<lambda>i. t_rows t ! i) idx)"

text \<open>
  In the partitions below every feature has one dtype, so that no concatenation of several
  dtypes takes place in a run on them. The runs are given this stand-in for it; their
  outcomes are the same for every other (\<open>repeated_key_any_mix\<close>,
  \<open>final_pass_any_mix\<close>, \<open>missing_feature_any_mix\<close>).
\<close>

definition no_mixed :: mixed_cat where
  "no_mixed ts = Inl TorchError"

text \<open>The same two partitions, the second lacking \<^verbatim>\<open>n/x\<close>, and their mappings.\<close>

definition gap_parts :: store where
  "gap_parts =
     \<lparr>listdir = [(''part0'', True), (''part1'', True), (''wholegraph'', True)],
      pfiles =
        [(''part0'', ''node_feat.dgl'') \<mapsto>
           [(''n/x'', Tensor ''torch.float32'' [2] [[1, 2], [3, 4]]),
            (''n/y'', Tensor ''torch.int64'' [] [[7], [8]])],
         (''part1'', ''node_feat.dgl'') \<mapsto>
           [(''n/y'', Tensor ''torch.int64'' [] [[9]])]],
      metadata = Map.empty,
      wgfiles = Map.empty\<rparr>"

definition gap_files :: "feat_dict list" where
  "gap_files =
     [[(''n/x'', Tensor ''torch.float32'' [2] [[1, 2], [3, 4]]),
       (''n/y'', Tensor ''torch.int64'' [] [[7], [8]])],
      [(''n/y'', Tensor ''torch.int64'' [] [[9]])]]"

text \<open>The two paths on the two partitions, asked for \<^verbatim>\<open>n/x\<close>.\<close>

definition low_run :: "error option \<times> store" where
  "low_run =
     convert_feat_to_wholegraph no_mixed always_done [(''n'', [''x''])] ''node_feat.dgl'' True two_parts"

definition high_run :: "error option \<times> store" where
  "high_run =
     convert_feat_to_wholegraph no_mixed always_done [(''n'', [''x''])] ''node_feat.dgl'' False two_parts"

section \<open>Shard ranges\<close>

text \<open>
  C1. The claim: for every row count \<open>R \<ge> 1\<close> and shard count \<open>N \<ge> 1\<close> the row ranges of
  \<^verbatim>\<open>wholegraph_processing\<close> are contiguous and non-overlapping, their lengths sum to \<open>R\<close>
  and the last one ends at \<open>R\<close>. The source computes them differently on five rows and four
  shards: the shard size is 2, the third shard is the range from 4 to 6 although the tensor
  has rows 0 to 4 only, and the last shard starts at 6 and ends at 5. The service is asked
  for shards of 2, 2, 2 and \<open>-1\<close> rows, and 2, 2, 1 and 0 rows are copied into them.
\<close>

theorem shard_ranges_5_rows_4_shards:
  "shard_ranges 5 4 = [(0, 2), (2, 4), (4, 6), (6, 5)] \<and>
   map (\<lambda>p. s_shape (part_shard five_rows 4 p)) (py_range 4) = [[2], [2], [2], [- 1]] \<and>
   map (\<lambda>p. length (s_rows (part_shard five_rows 4 p))) (py_range 4) = [2, 2, 1, 0]"
  by code_simp

text \<open>
  What the ranges satisfy in general: each range ends where the next starts, the first
  starts at 0, the last ends at \<open>R\<close>, and the differences \<open>end - start\<close> add up to
  \<open>R\<close>. They are ranges of rows of the tensor exactly when
  \<open>(N - 1) * subpart_size R N \<le> R\<close>; otherwise the last one starts after its end.
\<close>

lemma shard_range_chain:
  "fst (shard_range R N 0) = 0 \<and>
   snd (shard_range R N (N - 1)) = R \<and>
   (p \<noteq> N - 1 \<longrightarrow> snd (shard_range R N p) = fst (shard_range R N (p + 1)))"
  by (simp add: shard_range_def Let_def)

lemma subpart_size_nonneg: "0 \<le> R \<Longrightarrow> 1 \<le> N \<Longrightarrow> 0 \<le> subpart_size R N"
  by (simp add: subpart_size_def div_nonneg_neg_le0)

lemma shard_range_within:
  assumes "0 \<le> R" and "1 \<le> N" and "(N - 1) * subpart_size R N \<le> R"
    and "0 \<le> p" and "p < N"
  shows "0 \<le> fst (shard_range R N p) \<and>
         fst (shard_range R N p) \<le> snd (shard_range R N p) \<and>
         snd (shard_range R N p) \<le> R"
proof -
  let ?s = "subpart_size R N"
  have s: "0 \<le> ?s" using assms(1,2) by (rule subpart_size_nonneg)
  have st: "0 \<le> p * ?s" using assms(4) s by simp
  show ?thesis
  proof (cases "p = N - 1")
    case True
    then show ?thesis using assms(3) st by (simp add: shard_range_def Let_def)
  next
    case False
    then have "p + 1 \<le> N - 1" using assms(5) by simp
    then have "(p + 1) * ?s \<le> (N - 1) * ?s" using s by (rule mult_right_mono)
    then have en: "(p + 1) * ?s \<le> R" using assms(3) by simp
    have "p * ?s \<le> (p + 1) * ?s" using s by (simp add: mult_right_mono)
    then show ?thesis using False st en by (simp add: shard_range_def Let_def)
  qed
qed

lemma shard_range_last_inverted:
  "R < (N - 1) * subpart_size R N \<Longrightarrow>
   snd (shard_range R N (N - 1)) < fst (shard_range R N (N - 1))"
  by (simp add: shard_range_def Let_def)

lemma shard_range_signed_sum:
  assumes "1 \<le> N"
  shows "(\<Sum>r\<leftarrow>shard_ranges R N. snd r - fst r) = R"
proof -
  let ?s = "subpart_size R N"
  obtain m where m: "nat N = Suc m" using assms by (cases "nat N") auto
  have N: "N = int m + 1" using m assms by simp
  have inner: "map ((\<lambda>r. snd r - fst r) \<circ> (shard_range R N \<circ> int)) [0..<m]
                 = map (\<lambda>i. ?s) [0..<m]"
    by (rule map_cong) (auto simp: shard_range_def Let_def N algebra_simps)
  have last: "snd (shard_range R N (int m)) - fst (shard_range R N (int m)) = R - int m * ?s"
    by (simp add: shard_range_def Let_def N)
  have "(\<Sum>r\<leftarrow>shard_ranges R N. snd r - fst r)
          = sum_list (map ((\<lambda>r. snd r - fst r) \<circ> (shard_range R N \<circ> int)) [0..<m])
            + (snd (shard_range R N (int m)) - fst (shard_range R N (int m)))"
    by (simp add: shard_ranges_def py_range_def m)
  also have "\<dots> = sum_list (map (\<lambda>i. ?s) [0..<m]) + (R - int m * ?s)"
    unfolding inner last ..
  also have "\<dots> = R" by (simp add: sum_list_triv)
  finally show ?thesis .
qed


section \<open>A failing service leaves the metadata and the earlier shards\<close>

lemma write_parts_keeps:
  "metadata (snd (write_parts svc whole feat N ps s)) = metadata s \<and>
   pfiles (snd (write_parts svc whole feat N ps s)) = pfiles s \<and>
   listdir (snd (write_parts svc whole feat N ps s)) = listdir s"
  by (induction ps arbitrary: s) (auto simp: Let_def split: outcome.splits)

lemma write_parts_frame:
  "nm \<notin> part_name feat N ` set ps \<Longrightarrow>
   wgfiles (snd (write_parts svc whole feat N ps s)) nm = wgfiles s nm"
  by (induction ps arbitrary: s) (auto simp: Let_def split: outcome.splits)

lemma write_parts_fails_at:
  assumes "k \<le> i" and "i < n"
    and "\<forall>j. k \<le> j \<and> j < i \<longrightarrow> svc (part_name feat N (int j)) (part_shard whole N (int j)) = Done"
    and "svc (part_name feat N (int i)) (part_shard whole N (int i)) \<noteq> Done"
  shows "fst (write_parts svc whole feat N (map int [k..<n]) s) = Some ServiceError \<and>
         (\<forall>j. k \<le> j \<and> j < i \<longrightarrow>
            wgfiles (snd (write_parts svc whole feat N (map int [k..<n]) s)) (part_name feat N (int j))
              = Some (part_shard whole N (int j)))"
  using assms
proof (induction "i - k" arbitrary: k s)
  case 0
  then have ki: "k = i" by simp
  have l: "[i..<n] = i # [Suc i..<n]" using \<open>i < n\<close> by (simp add: upt_conv_Cons)
  show ?case using "0.prems"(4) unfolding ki l
    by (cases "svc (part_name feat N (int i)) (part_shard whole N (int i))") (auto simp: Let_def)
next
  case (Suc d)
  then have lt: "k < i" by simp
  then have l: "[k..<n] = k # [Suc k..<n]" using \<open>i < n\<close> by (simp add: upt_conv_Cons)
  let ?s' = "s\<lparr>wgfiles := (wgfiles s)(part_name feat N (int k) \<mapsto> part_shard whole N (int k))\<rparr>"
  have dk: "svc (part_name feat N (int k)) (part_shard whole N (int k)) = Done"
    using Suc.prems(3) lt by simp
  have step: "write_parts svc whole feat N (map int [k..<n]) s
                = write_parts svc whole feat N (map int [Suc k..<n]) ?s'"
    by (simp add: l Let_def dk)
  have d: "d = i - Suc k" using Suc.hyps(2) by simp
  have IH: "fst (write_parts svc whole feat N (map int [Suc k..<n]) ?s') = Some ServiceError \<and>
         (\<forall>j. Suc k \<le> j \<and> j < i \<longrightarrow>
            wgfiles (snd (write_parts svc whole feat N (map int [Suc k..<n]) ?s')) (part_name feat N (int j))
              = Some (part_shard whole N (int j)))"
    using Suc.hyps(1)[OF d, of ?s'] lt Suc.prems by simp
  have notin: "part_name feat N (int k) \<notin> part_name feat N ` set (map int [Suc k..<n])"
    by (auto simp: part_name_def)
  have kept: "wgfiles (snd (write_parts svc whole feat N (map int [Suc k..<n]) ?s')) (part_name feat N (int k))
                = Some (part_shard whole N (int k))"
    using write_parts_frame[OF notin, of svc whole ?s'] by simp
  show ?case
  proof (intro conjI allI impI)
    show "fst (write_parts svc whole feat N (map int [k..<n]) s) = Some ServiceError"
      using IH step by simp
  next
    fix j assume j: "k \<le> j \<and> j < i"
    show "wgfiles (snd (write_parts svc whole feat N (map int [k..<n]) s)) (part_name feat N (int j))
              = Some (part_shard whole N (int j))"
    proof (cases "j = k")
      case True then show ?thesis using kept step by simp
    next
      case False then show ?thesis using IH step j by simp
    qed
  qed
qed

text \<open>
  C9. \<^verbatim>\<open>wholegraph_processing\<close> stores the metadata entry of the feature before it
  touches any shard. When the service completes the shards \<open>0, \<dots>, i - 1\<close> and raises on
  shard \<open>i\<close>, the call raises, and the state it leaves has the metadata entry (shape and
  dtype of the whole tensor) and the shard files \<open>0, \<dots>, i - 1\<close>: nothing is rolled back.
\<close>

theorem wholegraph_processing_failure_keeps_metadata:
  assumes "i < nat N"
    and "\<forall>j<i. svc (part_name feat N (int j)) (part_shard whole N (int j)) = Done"
    and "svc (part_name feat N (int i)) (part_shard whole N (int i)) \<noteq> Done"
  shows "fst (wholegraph_processing svc whole feat N s) = Some ServiceError \<and>
         metadata (snd (wholegraph_processing svc whole feat N s)) feat
           = Some \<lparr>m_shape = t_shape whole, m_dtype = t_dtype whole\<rparr> \<and>
         (\<forall>j<i. wgfiles (snd (wholegraph_processing svc whole feat N s)) (part_name feat N (int j))
              = Some (part_shard whole N (int j)))"
proof -
  have N: "N \<noteq> 0" using assms(1) by auto
  let ?s1 = "s\<lparr>metadata := (metadata s)(feat \<mapsto> \<lparr>m_shape = t_shape whole, m_dtype = t_dtype whole\<rparr>)\<rparr>"
  have eq: "wholegraph_processing svc whole feat N s
              = write_parts svc whole feat N (map int [0..<nat N]) ?s1"
    using N by (simp add: wholegraph_processing_def Let_def py_range_def)
  have f: "fst (write_parts svc whole feat N (map int [0..<nat N]) ?s1) = Some ServiceError \<and>
         (\<forall>j. 0 \<le> j \<and> j < i \<longrightarrow>
            wgfiles (snd (write_parts svc whole feat N (map int [0..<nat N]) ?s1)) (part_name feat N (int j))
              = Some (part_shard whole N (int j)))"
    using write_parts_fails_at[of 0 i "nat N" svc feat N whole ?s1] assms by simp
  have m: "metadata (snd (write_parts svc whole feat N (map int [0..<nat N]) ?s1)) = metadata ?s1"
    using write_parts_keeps by blast
  show ?thesis using f m eq by simp
qed

theorem wholegraph_processing_failure_keeps_metadata_witness:
  "(1::nat) < nat 3 \<and>
   fails_at 1 (part_name ''n/x'' 3 (int 0)) (part_shard five_rows 3 (int 0)) = Done \<and>
   fails_at 1 (part_name ''n/x'' 3 (int 1)) (part_shard five_rows 3 (int 1)) \<noteq> Done \<and>
   fst (wholegraph_processing (fails_at 1) five_rows ''n/x'' 3 two_parts) = Some ServiceError \<and>
   metadata (snd (wholegraph_processing (fails_at 1) five_rows ''n/x'' 3 two_parts)) ''n/x''
     = Some \<lparr>m_shape = [5], m_dtype = ''torch.int64''\<rparr> \<and>
   wgfiles (snd (wholegraph_processing (fails_at 1) five_rows ''n/x'' 3 two_parts)) (''n~x'', 0, 3)
     = Some \<lparr>s_shape = [2], s_dtype = ''torch.int64'', s_rows = [[10], [11]]\<rparr>"
proof -
  have h1: "(1::nat) < nat 3" by simp
  have h2: "\<forall>j<(1::nat). fails_at 1 (part_name ''n/x'' 3 (int j)) (part_shard five_rows 3 (int j)) = Done"
    by (simp add: fails_at_def part_name_def)
  have h3: "fails_at 1 (part_name ''n/x'' 3 (int 1)) (part_shard five_rows 3 (int 1)) \<noteq> Done"
    by (simp add: fails_at_def part_name_def)
  have n0: "part_name ''n/x'' 3 (int 0) = (''n~x'', 0, 3)"
    by (simp add: part_name_def str_replace_slash_def)
  have p0: "part_shard five_rows 3 (int 0)
              = \<lparr>s_shape = [2], s_dtype = ''torch.int64'', s_rows = [[10], [11]]\<rparr>"
    by (simp add: part_shard_def shard_range_def subpart_size_def five_rows_def py_slice_def
        slice_bound_def Let_def)
  have sh: "t_shape five_rows = [5]" "t_dtype five_rows = ''torch.int64''"
    by (simp_all add: t_shape_def five_rows_def)
  from wholegraph_processing_failure_keeps_metadata [OF h1 h2 h3, of two_parts]
  show ?thesis using h1 h2 h3 n0 p0 sh by (metis less_one)
qed

section \<open>load\_wg\_feat and one-dimensional shapes\<close>

text \<open>
  C10. When WholeGraph is initialised, the metadata has an entry for \<^verbatim>\<open>type/name\<close> and
  its dtype names an attribute of torch, \<^verbatim>\<open>load_wg_feat\<close> creates the embedding, with the
  shape \<open>[n, 1]\<close> when the recorded shape is \<open>[n]\<close> and with the recorded shape itself
  otherwise, in particular when it has length 2.
\<close>

theorem load_wg_feat_shape:
  assumes "wholegraph_init"
    and "wg_metadata (type_name @ ''/'' @ name) = Some entry"
    and "py_split CHR ''.'' (m_dtype entry) = pre # attr # rest"
    and "th_getattr attr = Some dt"
  shows "\<exists>emb. load_wg_feat wholegraph_init th_getattr wg_metadata num_parts type_name name = Inr emb
           \<and> e_dtype emb = dt
           \<and> e_shape emb = (case m_shape entry of [n] \<Rightarrow> [n, 1] | _ \<Rightarrow> m_shape entry)"
proof -
  have "embedding_shape (m_shape entry)
          = (case m_shape entry of [n] \<Rightarrow> [n, 1] | _ \<Rightarrow> m_shape entry)"
    by (cases "m_shape entry" rule: list.exhaust; simp add: embedding_shape_def split: list.splits)
  with assms show ?thesis
    by (simp add: load_wg_feat_def Let_def)
qed

theorem load_wg_feat_shape_witness:
  "\<exists>emb. load_wg_feat True [''int64'' \<mapsto> (64::nat)]
      [''n/y'' \<mapsto> \<lparr>m_shape = [3], m_dtype = ''torch.int64''\<rparr>] 2 ''n'' ''y'' = Inr emb
     \<and> e_dtype emb = 64 \<and> e_shape emb = [3, 1]"
  using load_wg_feat_shape [of True "[''n/y'' \<mapsto> \<lparr>m_shape = [3], m_dtype = ''torch.int64''\<rparr>]"
      "''n''" "''y''" "\<lparr>m_shape = [3], m_dtype = ''torch.int64''\<rparr>" "''torch''" "''int64''" "[]"
      "[''int64'' \<mapsto> (64::nat)]" 64 2]
  by simp

section \<open>The handle\<close>

lemma init_without_optimizer_never_returns:
  "isl (WholeGraphDistTensor_init version shape dtype name location False)"
  by (cases shape rule: list.exhaust; simp add: WholeGraphDistTensor_init_def split: list.splits)

text \<open>
  C3. The claim: the constructor called with \<^verbatim>\<open>use_wg_optimizer=False\<close> on a shape of two
  dimensions creates the tensor, and reading and writing succeed at once. In the source the
  constructor called with the shape \<open>(10, 4)\<close>, a version that passes the check and
  \<^verbatim>\<open>use_wg_optimizer=False\<close> reaches \<^verbatim>\<open>create_wg_dist_tensor(shape, dtype, location)\<close>
  and raises \<^verbatim>\<open>NameError\<close>, the name being bound nowhere: no handle is returned, so there
  is nothing to read or write.
\<close>

theorem init_without_optimizer_raises:
  "WholeGraphDistTensor_init ''23.12.00'' [10, 4] ''torch.float32'' ''emb'' ''cpu'' False
     = (Inl (NameError ''create_wg_dist_tensor'') :: error + (tensor, nat, unit) dist_tensor)"
  by (simp add: WholeGraphDistTensor_init_def)

text \<open>
  C6, as the source has it. A shape of fewer than two dimensions makes the constructor raise
  \<^verbatim>\<open>IndexError\<close> at \<^verbatim>\<open>shape[0]\<close> or \<^verbatim>\<open>shape[1]\<close>, whatever the other arguments are,
  before the version is tested and before the creation of a tensor is attempted. The source
  has no test of the number of dimensions, so a longer shape is not refused.
\<close>

theorem init_short_shape_raises:
  "length shape < 2 \<Longrightarrow>
   WholeGraphDistTensor_init version shape dtype name location use_wg_optimizer
     = Inl IndexError"
  by (cases shape rule: list.exhaust; simp add: WholeGraphDistTensor_init_def split: list.splits)

theorem init_short_shape_raises_witness:
  "length [7 :: int] < 2 \<and>
   WholeGraphDistTensor_init ''23.12.00'' [7] ''torch.float32'' ''emb'' ''cpu'' False
     = (Inl IndexError :: error + (tensor, nat, unit) dist_tensor)"
  using init_short_shape_raises [of "[7]" "''23.12.00''" "''torch.float32''"
      "''emb''" "''cpu''" False]
  by simp

text \<open>
  C6, as the claim states it, fails on a shape of three dimensions: with
  \<^verbatim>\<open>use_wg_optimizer=True\<close> the constructor returns the unbound handle and raises nothing.
\<close>

theorem init_accepts_3d_shape:
  "length [10, 4, 3 :: int] \<noteq> 2 \<and>
   WholeGraphDistTensor_init ''23.12.00'' [10, 4, 3] ''torch.float32'' ''emb'' ''cpu'' True
     = Inr unbound_handle"
  by (simp add: WholeGraphDistTensor_init_def unbound_handle_def)

lemma init_long_shape_accepted:
  assumes "shape = n # d # rest" and "str_le ''23.12.00'' version"
  shows "WholeGraphDistTensor_init version shape dtype name location True
           = Inr \<lparr>h_nnodes = n, h_embedding_dim = d, h_name = name, h_dtype = dtype,
                  h_location = location, h_use_wg_optimizer = True,
                  h_tensor = None, h_module = None, h_optimizer = None\<rparr>"
  using assms by (simp add: WholeGraphDistTensor_init_def)

lemma init_with_optimizer_unbound:
  assumes "WholeGraphDistTensor_init version shape dtype name location True = Inr self"
  shows "h_tensor self = None \<and> h_module self = None \<and> h_optimizer self = None \<and>
         WholeGraphDistTensor_getitem gather self idx
           = Inl (AssertionError ''Please create WholeGraph tensor first.'')"
  using assms
  by (auto simp: WholeGraphDistTensor_init_def WholeGraphDistTensor_getitem_def
      split: list.splits if_splits)

lemma attach_wg_optimizer_always_raises:
  "fst (attach_wg_optimizer self wg_optimizer) \<noteq> None \<and>
   h_tensor (snd (attach_wg_optimizer self wg_optimizer)) = h_tensor self \<and>
   h_module (snd (attach_wg_optimizer self wg_optimizer)) = h_module self"
  by (simp add: attach_wg_optimizer_def)

lemma attach_wg_optimizer_second_call:
  assumes "h_optimizer self \<noteq> None" and "h_use_wg_optimizer self"
  shows "attach_wg_optimizer self wg_optimizer = (Some RuntimeError_OptimizerExists, self)"
  using assms by (simp add: attach_wg_optimizer_def)

text \<open>
  C4. The claim expects \<^verbatim>\<open>attach_wg_optimizer\<close> to succeed once on a handle built with
  \<^verbatim>\<open>use_wg_optimizer=True\<close> and to create the tensor then. In the source the first call
  on the fresh handle stores the optimizer and raises \<^verbatim>\<open>NameError\<close>: the handle still has
  no tensor and no module, reading it raises the assertion error, and the next call raises
  \<^verbatim>\<open>RuntimeError\<close> because the optimizer is set.
\<close>

theorem attach_wg_optimizer_on_unbound_handle:
  "WholeGraphDistTensor_init ''23.12.00'' [10, 4] ''torch.float32'' ''emb'' ''cpu'' True
     = Inr unbound_handle \<and>
   WholeGraphDistTensor_getitem gather_rows unbound_handle [0]
     = Inl (AssertionError ''Please create WholeGraph tensor first.'') \<and>
   attach_wg_optimizer unbound_handle (Some 1)
     = (Some (NameError ''create_wg_dist_tensor''), unbound_handle\<lparr>h_optimizer := Some 1\<rparr>) \<and>
   h_tensor (unbound_handle\<lparr>h_optimizer := Some 1\<rparr>) = None \<and>
   WholeGraphDistTensor_getitem gather_rows (unbound_handle\<lparr>h_optimizer := Some 1\<rparr>) [0]
     = Inl (AssertionError ''Please create WholeGraph tensor first.'') \<and>
   attach_wg_optimizer (unbound_handle\<lparr>h_optimizer := Some 1\<rparr>) (Some 1)
     = (Some RuntimeError_OptimizerExists, unbound_handle\<lparr>h_optimizer := Some 1\<rparr>)"
  by (simp add: WholeGraphDistTensor_init_def unbound_handle_def attach_wg_optimizer_def
      WholeGraphDistTensor_getitem_def)

section \<open>The two conversion paths\<close>

lemma wholegraph_processing_keeps:
  "pfiles (snd (wholegraph_processing svc whole feat N s)) = pfiles s \<and>
   listdir (snd (wholegraph_processing svc whole feat N s)) = listdir s"
  by (simp add: wholegraph_processing_def Let_def write_parts_keeps)

lemma dict_contains_map_of: "dict_contains d k \<longleftrightarrow> map_of d k \<noteq> None"
  by (simp add: dict_contains_def dict_keys_def map_of_eq_None_iff)

lemma dict_get_contains: "dict_get d k = Inr t \<Longrightarrow> dict_contains d k"
  by (auto simp: dict_get_def dict_contains_map_of split: option.splits)

lemma dict_get_missing: "\<not> dict_contains d k \<Longrightarrow> dict_get d k = Inl (KeyError k)"
  by (auto simp: dict_get_def dict_contains_map_of split: option.splits)

lemma dict_get_cases:
  "dict_get d k = Inl (KeyError k) \<and> \<not> dict_contains d k \<or>
   (\<exists>t. dict_get d k = Inr t \<and> dict_contains d k)"
  by (auto simp: dict_get_def dict_contains_map_of split: option.splits)


lemma dict_contains_filter:
  "dict_contains (filter (\<lambda>kv. fst kv \<notin> D) d) k \<longleftrightarrow> dict_contains d k \<and> k \<notin> D"
  by (induction d) (auto simp: dict_contains_def dict_keys_def)

lemma dict_keys_filter:
  "dict_keys (filter (\<lambda>kv. fst kv \<notin> D) d) = filter (\<lambda>x. x \<notin> D) (dict_keys d)"
  by (induction d) (auto simp: dict_keys_def)

lemma load_all_length: "load_all s fn names = Inr fl \<Longrightarrow> length fl = length names"
  by (induction names arbitrary: fl) (auto split: sum.splits)

lemma load_all_cong:
  "pfiles s' = pfiles s \<Longrightarrow> load_all s' fn names = load_all s fn names"
  by (induction names) (auto simp: load_tensors_def split: sum.splits option.splits)

lemma get_all_error: "get_all k fd = Inl e \<Longrightarrow> e = KeyError k"
  by (induction fd arbitrary: e) (auto simp: dict_get_def split: sum.splits option.splits)

lemma get_all_missing:
  "p < length fd \<Longrightarrow> \<not> dict_contains (fd ! p) k \<Longrightarrow> get_all k fd = Inl (KeyError k)"
proof (induction fd arbitrary: p)
  case Nil then show ?case by simp
next
  case (Cons d fd)
  show ?case
  proof (cases p)
    case 0
    with Cons.prems show ?thesis by (simp add: dict_get_missing)
  next
    case (Suc q)
    with Cons have "get_all k fd = Inl (KeyError k)" by simp
    then show ?thesis using dict_get_cases[of d k] by (auto split: sum.splits)
  qed
qed


lemma get_all_del_all:
  "get_all k fd = Inr ts \<Longrightarrow> del_all k fd = Inr (map (filter (\<lambda>kv. fst kv \<noteq> k)) fd)"
  by (induction fd arbitrary: ts)
    (auto simp: dict_del_def dict_get_contains split: sum.splits)




lemma th_concat_same_dtype: "same_dtype ts \<Longrightarrow> th_concat mix ts = th_concat mix' ts"
  by (simp add: th_concat_def)

lemma same_dtype_split:
  "same_dtype (a # t # ts) \<longleftrightarrow> t_dtype t = t_dtype a \<and> same_dtype (a # ts)"
  by (simp add: same_dtype_def)

lemma same_dtype_pair: "same_dtype [a, t] \<longleftrightarrow> t_dtype t = t_dtype a"
  by (simp add: same_dtype_def)

lemma th_concat_pair_dtype:
  "t_dtype t = t_dtype a \<Longrightarrow> th_concat mix [a, t] = Inr a' \<Longrightarrow> t_dtype a' = t_dtype a"
  by (auto simp: th_concat_def same_dtype_def split: if_splits list.splits)

lemma same_dtype_acc:
  "same_dtype (a # ts) \<Longrightarrow> t_dtype a' = t_dtype a \<Longrightarrow> same_dtype (a' # ts)"
  by (simp add: same_dtype_def)

lemma th_concat_one: "th_concat mix [t] = Inr t"
  by (cases t) (auto simp: th_concat_def same_dtype_def cat_skips_def)

lemma th_concat_acc:
  assumes "same_dtype (a # t # ts)"
  shows "(case th_concat mix [a, t] of Inl e \<Rightarrow> Inl e | Inr a' \<Rightarrow> th_concat mix (a' # ts))
           = th_concat mix (a # t # ts)"
proof -
  have dt: "t_dtype t = t_dtype a" and rest: "list_all (\<lambda>u. t_dtype u = t_dtype a) ts"
    using assms by (simp_all add: same_dtype_def)
  have sd: "\<And>b. t_dtype b = t_dtype a \<Longrightarrow> same_dtype (b # ts)"
    using rest by (simp add: same_dtype_def)
  show ?thesis
  proof (cases "cat_skips a")
    case True
    note sa = True
    show ?thesis
    proof (cases "cat_skips t")
      case True
      have p: "th_concat mix [a, t] = Inr (Tensor (t_dtype a) [] [])"
        using sa True dt by (simp add: th_concat_def same_dtype_def)
      have s': "cat_skips (Tensor (t_dtype a) [] [])" by (simp add: cat_skips_def)
      show ?thesis unfolding p
        using s' sa True assms sd[of "Tensor (t_dtype a) [] []"]
        by (simp add: th_concat_def split: list.splits)
    next
      case False
      have p: "th_concat mix [a, t] = Inr t"
        using sa False dt by (cases t) (simp add: th_concat_def same_dtype_def)
      show ?thesis unfolding p
        using sa False assms sd[of t] dt by (simp add: th_concat_def split: list.splits)
    qed
  next
    case False
    note na = False
    show ?thesis
    proof (cases "cat_skips t")
      case True
      have p: "th_concat mix [a, t] = Inr a"
        using na True dt by (cases a) (simp add: th_concat_def same_dtype_def)
      show ?thesis unfolding p
        using na True assms sd[of a] by (simp add: th_concat_def split: list.splits)
    next
      case False
      show ?thesis
      proof (cases "t_tail t = t_tail a")
        case tl: True
        let ?a' = "Tensor (t_dtype a) (t_tail a) (t_rows a @ t_rows t)"
        have p: "th_concat mix [a, t] = Inr ?a'"
          using na False dt tl by (simp add: th_concat_def same_dtype_def)
        have n': "\<not> cat_skips ?a'" using na by (auto simp: cat_skips_def)
        show ?thesis unfolding p
          using n' na False assms sd[of ?a'] tl
          by (simp add: th_concat_def split: list.splits)
      next
        case ntl: False
        have p: "th_concat mix [a, t] = Inl TorchError"
          using na False dt ntl by (simp add: th_concat_def same_dtype_def)
        show ?thesis unfolding p
          using na False assms ntl by (simp add: th_concat_def split: list.splits)
      qed
    qed
  qed
qed

lemma low_mem_read_acc:
  assumes "load_all s fn names = Inr fl" and "get_all k fl = Inr ts" and "same_dtype (a # ts)"
  shows "low_mem_read mix s fn k names (Some a) n =
           (case th_concat mix (a # ts) of
              Inl e \<Rightarrow> Inl e
            | Inr w \<Rightarrow> Inr (Some w, n + int (length names)))"
  using assms
proof (induction names arbitrary: fl ts a n)
  case Nil
  then show ?case by (simp add: th_concat_one)
next
  case (Cons nm names)
  from Cons.prems(1) obtain d fl' where d: "load_tensors s nm fn = Inr d"
      and fl': "load_all s fn names = Inr fl'" and fl: "fl = d # fl'"
    by (auto split: sum.splits)
  from Cons.prems(2) fl obtain t ts' where t: "dict_get d k = Inr t"
      and ts': "get_all k fl' = Inr ts'" and ts: "ts = t # ts'"
    by (auto split: sum.splits)
  have c: "dict_contains d k" using t by (rule dict_get_contains)
  have sd: "same_dtype (a # t # ts')" using Cons.prems(3) ts by simp
  then have dt: "t_dtype t = t_dtype a" and sd': "same_dtype (a # ts')"
    by (simp_all add: same_dtype_split)
  show ?case
  proof (cases "th_concat mix [a, t]")
    case (Inl e)
    have "th_concat mix (a # t # ts') = Inl e"
      using th_concat_acc[OF sd, of mix] Inl by simp
    then show ?thesis using d c t ts Inl by simp
  next
    case (Inr a')
    have da: "t_dtype a' = t_dtype a" using dt Inr by (rule th_concat_pair_dtype)
    have sa: "same_dtype (a' # ts')" using sd' da by (rule same_dtype_acc)
    have "low_mem_read mix s fn k (nm # names) (Some a) n
            = low_mem_read mix s fn k names (Some a') (n + 1)"
      using d c t Inr by simp
    also have "\<dots> = (case th_concat mix (a' # ts') of
              Inl e \<Rightarrow> Inl e
            | Inr w \<Rightarrow> Inr (Some w, n + 1 + int (length names)))"
      using Cons.IH[OF fl' ts' sa] .
    also have "th_concat mix (a' # ts') = th_concat mix (a # t # ts')"
      using th_concat_acc[OF sd, of mix] Inr by simp
    finally show ?thesis using ts by (simp add: ac_simps split: sum.splits)
  qed
qed

lemma low_mem_read_none:
  assumes "load_all s fn names = Inr fl" and "get_all k fl = Inr ts" and "names \<noteq> []"
    and "same_dtype ts"
  shows "low_mem_read mix s fn k names None n =
           (case th_concat mix ts of
              Inl e \<Rightarrow> Inl e
            | Inr w \<Rightarrow> Inr (Some w, n + int (length names)))"
proof -
  obtain nm rest where names: "names = nm # rest" using assms(3) by (cases names) auto
  from assms(1) names obtain d fl' where d: "load_tensors s nm fn = Inr d"
      and fl': "load_all s fn rest = Inr fl'" and fl: "fl = d # fl'"
    by (auto split: sum.splits)
  from assms(2) fl obtain t ts' where t: "dict_get d k = Inr t"
      and ts': "get_all k fl' = Inr ts'" and ts: "ts = t # ts'"
    by (auto split: sum.splits)
  have c: "dict_contains d k" using t by (rule dict_get_contains)
  have sd: "same_dtype (t # ts')" using assms(4) ts by simp
  have "low_mem_read mix s fn k names None n = low_mem_read mix s fn k rest (Some t) (n + 1)"
    using names d c t by simp
  then show ?thesis
    using low_mem_read_acc[OF fl' ts' sd, of mix "n + 1"] ts names
    by (simp add: ac_simps split: sum.splits)
qed

lemma low_mem_read_missing:
  assumes "load_all s fn names = Inr fl" and "isl (get_all k fl)"
  shows "isl (low_mem_read mix s fn k names acc n)"
  using assms
proof (induction names arbitrary: fl acc n)
  case Nil
  then show ?case by simp
next
  case (Cons nm names)
  from Cons.prems(1) obtain d fl' where d: "load_tensors s nm fn = Inr d"
      and fl': "load_all s fn names = Inr fl'" and fl: "fl = d # fl'"
    by (auto split: sum.splits)
  show ?case
  proof (cases "dict_contains d k")
    case False
    then show ?thesis using d by simp
  next
    case True
    then obtain t where t: "dict_get d k = Inr t" using dict_get_cases[of d k] by auto
    have rest: "isl (get_all k fl')" using Cons.prems(2) fl t by (auto split: sum.splits)
    show ?thesis using d True t Cons.IH[OF fl' rest]
      by (auto split: option.splits sum.splits)
  qed
qed

lemma low_mem_read_load_fail:
  assumes "isl (load_all s fn names)"
  shows "isl (low_mem_read mix s fn k names acc n)"
  using assms
proof (induction names arbitrary: acc n)
  case Nil
  then show ?case by simp
next
  case (Cons nm names)
  show ?case
  proof (cases "load_tensors s nm fn")
    case (Inl e)
    then show ?thesis by simp
  next
    case (Inr d)
    then have "isl (load_all s fn names)" using Cons.prems by (auto split: sum.splits)
    then show ?thesis using Inr Cons.IH
      by (auto split: option.splits sum.splits)
  qed
qed


lemma low_mem_feat_err:
  assumes "isl (load_all s fn pf) \<or> pf = [] \<or>
           (\<exists>fl. load_all s fn pf = Inr fl \<and>
              (isl (get_all k fl) \<or>
               (\<exists>ts. get_all k fl = Inr ts \<and> same_dtype ts \<and> isl (th_concat mix ts))))"
  shows "\<exists>e. low_mem_feat mix svc fn pf k s = (Some e, s)"
proof -
  consider (a) "isl (load_all s fn pf)" | (b) "pf = []"
    | (c) fl where "load_all s fn pf = Inr fl" "isl (get_all k fl)" "pf \<noteq> []"
    | (d) fl ts where "load_all s fn pf = Inr fl" "get_all k fl = Inr ts" "same_dtype ts"
        "isl (th_concat mix ts)" "pf \<noteq> []"
    using assms by blast
  then show ?thesis
  proof cases
    case a
    then show ?thesis using low_mem_read_load_fail[OF a, of mix k None 0]
      by (auto simp: low_mem_feat_def isl_def)
  next
    case b
    then show ?thesis by (simp add: low_mem_feat_def)
  next
    case c
    then show ?thesis using low_mem_read_missing[OF c(1,2), of mix None 0]
      by (auto simp: low_mem_feat_def isl_def)
  next
    case d
    then show ?thesis using low_mem_read_none[OF d(1,2,5,3), of mix 0]
      by (auto simp: low_mem_feat_def isl_def)
  qed
qed

lemma low_mem_feat_keeps:
  "pfiles (snd (low_mem_feat mix svc fn pf k s)) = pfiles s \<and>
   listdir (snd (low_mem_feat mix svc fn pf k s)) = listdir s"
  by (auto simp: low_mem_feat_def wholegraph_processing_keeps
      split: sum.splits prod.splits option.splits)




lemma trim_feat_files_keeps_out:
  "metadata (snd (trim_feat_files trimmed_feats file_name part s)) = metadata s \<and>
   wgfiles (snd (trim_feat_files trimmed_feats file_name part s)) = wgfiles s \<and>
   listdir (snd (trim_feat_files trimmed_feats file_name part s)) = listdir s"
  by (auto simp: trim_feat_files_def save_tensors_def os_rename_def
      split: sum.splits if_splits option.splits)

lemma trim_all_keeps_out:
  "metadata (snd (trim_all trimmed_feats fn parts s)) = metadata s \<and>
   wgfiles (snd (trim_all trimmed_feats fn parts s)) = wgfiles s"
proof (induction parts arbitrary: s)
  case Nil
  then show ?case by simp
next
  case (Cons p parts)
  show ?case
  proof (cases "trim_feat_files trimmed_feats fn p s")
    case (Pair r s')
    have k: "metadata s' = metadata s \<and> wgfiles s' = wgfiles s"
      using trim_feat_files_keeps_out[of trimmed_feats fn p s] Pair by simp
    show ?thesis using Pair k Cons.IH[of s'] by (cases r) simp_all
  qed
qed

lemma trim_one_dict: "trim_feat_files (OneDict d) fn part s = (Some (KeyError_int part), s)"
  by (simp add: trim_feat_files_def)

lemma low_mem_trim_keeps: "snd (low_mem_trim keys fn names n s) = s"
  by (cases names) (auto simp: trim_one_dict split: sum.splits)





text \<open>The same outcome for every behaviour of torch on operands of several dtypes.\<close>

lemma repeated_key_any_mix:
  "metadata (snd (convert_feat_to_wholegraph mix always_done [(''n'', [''x'', ''x'', ''y''])]
       ''node_feat.dgl'' False two_parts)) ''n/y'' = None \<and>
   metadata (snd (convert_feat_to_wholegraph mix always_done [(''n'', [''x'', ''x'', ''y''])]
       ''node_feat.dgl'' True two_parts)) ''n/y''
     = Some \<lparr>m_shape = [3], m_dtype = ''torch.int64''\<rparr>"
  by code_simp

section \<open>Trimming\<close>

lemma new_neq: "''new_'' @ f \<noteq> f"
proof
  assume "''new_'' @ f = f"
  then have "length (''new_'' @ f) = length f" by simp
  then show False by simp
qed

lemma bak_neq: "f @ ''.bak'' \<noteq> f"
proof
  assume "f @ ''.bak'' = f"
  then have "length (f @ ''.bak'') = length f" by simp
  then show False by simp
qed

lemma new_neq_bak: "''new_'' @ f \<noteq> f @ ''.bak''"
proof
  assume "''new_'' @ f = f @ ''.bak''"
  then have "length (filter (\<lambda>c. c = CHR ''n'') (''new_'' @ f))
               = length (filter (\<lambda>c. c = CHR ''n'') (f @ ''.bak''))" by simp
  then show False by simp
qed

lemma trim_feat_files_keeps_bak:
  assumes "pfiles s (part_dir part, file_name @ ''.bak'') \<noteq> None"
  shows "pfiles (snd (trim_feat_files trimmed_feats file_name part s))
           (part_dir part, file_name @ ''.bak'') \<noteq> None"
  using assms new_neq_bak[of file_name] bak_neq[of file_name] new_neq[of file_name]
  by (auto simp: trim_feat_files_def save_tensors_def os_rename_def
      split: sum.splits if_splits option.splits)

text \<open>
  C8. Let the partition directory exist and hold the feature file. The first call of
  \<^verbatim>\<open>trim_feat_files\<close> returns normally, leaves the trimmed mapping under the file name
  and the former content under the \<^verbatim>\<open>.bak\<close> name. A second call with the same arguments
  returns normally too, although the \<^verbatim>\<open>.bak\<close> file exists: the file still holds the
  trimmed mapping and the \<^verbatim>\<open>.bak\<close> file is still there (it now holds the trimmed mapping
  as well, the rename having replaced it).
\<close>

theorem trim_feat_files_twice:
  assumes "part < length feats_data"
    and "is_dir s (part_dir part)"
    and "pfiles s (part_dir part, file_name) = Some original"
  shows "\<exists>s1 s2.
           trim_feat_files (PartList feats_data) file_name part s = (None, s1) \<and>
           pfiles s1 (part_dir part, file_name) = Some (feats_data ! part) \<and>
           pfiles s1 (part_dir part, file_name @ ''.bak'') = Some original \<and>
           trim_feat_files (PartList feats_data) file_name part s1 = (None, s2) \<and>
           pfiles s2 (part_dir part, file_name) = Some (feats_data ! part) \<and>
           pfiles s2 (part_dir part, file_name @ ''.bak'') = Some (feats_data ! part)"
  using assms new_neq_bak[of file_name] bak_neq[of file_name] new_neq[of file_name]
  by (auto simp: trim_feat_files_def save_tensors_def os_rename_def is_dir_def
      split: sum.splits if_splits option.splits)

theorem trim_feat_files_twice_witness:
  "(0::nat) < length [[(''n/y'', Tensor ''torch.int64'' [] [[7], [8]])]] \<and>
   is_dir two_parts (part_dir 0) \<and>
   (\<exists>s1 s2.
      trim_feat_files (PartList [[(''n/y'', Tensor ''torch.int64'' [] [[7], [8]])]])
        ''node_feat.dgl'' 0 two_parts = (None, s1) \<and>
      trim_feat_files (PartList [[(''n/y'', Tensor ''torch.int64'' [] [[7], [8]])]])
        ''node_feat.dgl'' 0 s1 = (None, s2) \<and>
      pfiles s2 (''part0'', ''node_feat.dgl'')
        = Some [(''n/y'', Tensor ''torch.int64'' [] [[7], [8]])] \<and>
      pfiles s2 (''part0'', ''node_feat.dgl.bak'')
        = Some [(''n/y'', Tensor ''torch.int64'' [] [[7], [8]])])"
proof -
  have pd: "part_dir 0 = ''part0''" by (simp add: part_dir_def str_nat.simps)
  have h1: "(0::nat) < length [[(''n/y'', Tensor ''torch.int64'' [] [[7], [8]])]]" by simp
  have h2: "is_dir two_parts (part_dir 0)" by (simp add: is_dir_def two_parts_def pd)
  have h3: "pfiles two_parts (part_dir 0, ''node_feat.dgl'')
              = Some [(''n/x'', Tensor ''torch.float32'' [2] [[1, 2], [3, 4]]),
                      (''n/y'', Tensor ''torch.int64'' [] [[7], [8]])]"
    by (simp add: two_parts_def pd)
  from trim_feat_files_twice [OF h1 h2 h3]
  show ?thesis using h1 h2 by (simp add: pd) blast
qed

lemma low_mem_loop_keeps:
  "pfiles (snd (low_mem_loop mix svc fn pf keys s)) = pfiles s"
proof (induction keys arbitrary: s)
  case Nil
  then show ?case by simp
next
  case (Cons k keys)
  show ?case
  proof (cases "low_mem_feat mix svc fn pf k s")
    case (Pair r s')
    have "pfiles s' = pfiles s" using low_mem_feat_keeps[of mix svc fn pf k s] Pair by simp
    then show ?thesis using Pair Cons.IH[of s'] by (cases r) simp_all
  qed
qed

lemma low_mem_trim_raises: "names \<noteq> [] \<Longrightarrow> fst (low_mem_trim keys fn names n s) \<noteq> None"
  by (cases names) (auto simp: trim_one_dict split: sum.splits)

lemma convert_low_mem_never_trims:
  "pfiles (snd (convert_feat_to_wholegraph mix svc fname_dict file_name True s)) = pfiles s \<and>
   (part_files_of s \<noteq> [] \<longrightarrow>
      fst (convert_feat_to_wholegraph mix svc fname_dict file_name True s) \<noteq> None)"
proof -
  let ?L = "low_mem_loop mix svc file_name (part_files_of s) (requested_keys fname_dict) s"
  have "snd (convert_low_mem mix svc fname_dict file_name s) = snd ?L"
    by (cases ?L; cases "fst ?L") (auto simp: convert_low_mem_def low_mem_trim_keeps)
  moreover have "part_files_of s \<noteq> [] \<longrightarrow> fst (convert_low_mem mix svc fname_dict file_name s) \<noteq> None"
    by (cases ?L; cases "fst ?L") (auto simp: convert_low_mem_def low_mem_trim_raises)
  ultimately show ?thesis
    by (simp add: convert_feat_to_wholegraph_def low_mem_loop_keeps)
qed

text \<open>
  C5. The claim: the final pass of the low-memory path trims every partition once, with
  the partition numbers \<open>0, \<dots>, N - 1\<close> of the high-memory path. On two partitions and
  one requested feature the source converts the feature and then raises \<^verbatim>\<open>KeyError: 1\<close>
  in the final pass: \<^verbatim>\<open>trim_feat_files\<close> is handed the mapping just loaded and the
  counter after its increment, and subscripts the one with the other. No feature file is
  rewritten and no \<^verbatim>\<open>.bak\<close> file appears. The high-memory path on the same input trims
  both partitions.
\<close>

theorem low_mem_final_pass_raises:
  "fst low_run = Some (KeyError_int 1) \<and>
   metadata (snd low_run) ''n/x'' = Some \<lparr>m_shape = [3, 2], m_dtype = ''torch.float32''\<rparr> \<and>
   pfiles (snd low_run) (''part0'', ''node_feat.dgl'') = pfiles two_parts (''part0'', ''node_feat.dgl'') \<and>
   pfiles (snd low_run) (''part1'', ''node_feat.dgl'') = pfiles two_parts (''part1'', ''node_feat.dgl'') \<and>
   pfiles (snd low_run) (''part0'', ''node_feat.dgl.bak'') = None \<and>
   pfiles (snd low_run) (''part1'', ''node_feat.dgl.bak'') = None \<and>
   fst high_run = None \<and>
   pfiles (snd high_run) (''part0'', ''node_feat.dgl'')
     = Some [(''n/y'', Tensor ''torch.int64'' [] [[7], [8]])] \<and>
   pfiles (snd high_run) (''part1'', ''node_feat.dgl'')
     = Some [(''n/y'', Tensor ''torch.int64'' [] [[9]])] \<and>
   pfiles (snd high_run) (''part0'', ''node_feat.dgl.bak'') = pfiles two_parts (''part0'', ''node_feat.dgl'') \<and>
   pfiles (snd high_run) (''part1'', ''node_feat.dgl.bak'') = pfiles two_parts (''part1'', ''node_feat.dgl'')"
  by code_simp

lemma final_pass_any_mix:
  "fst (convert_feat_to_wholegraph mix always_done [(''n'', [''x''])] ''node_feat.dgl'' True two_parts)
     = Some (KeyError_int 1) \<and>
   fst (convert_feat_to_wholegraph mix always_done [(''n'', [''x''])] ''node_feat.dgl'' False two_parts)
     = None"
  by code_simp

section \<open>A requested feature that a partition lacks\<close>

lemma low_mem_loop_append:
  "low_mem_loop mix svc fn pf (xs @ ys) s =
     (case low_mem_loop mix svc fn pf xs s of
        (Some e, s') \<Rightarrow> (Some e, s')
      | (None, s') \<Rightarrow> low_mem_loop mix svc fn pf ys s')"
  by (induction xs arbitrary: s) (auto split: prod.splits option.splits)

lemma high_mem_loop_append:
  "high_mem_loop mix svc N (xs @ ys) fd s =
     (case high_mem_loop mix svc N xs fd s of
        (Some e, r) \<Rightarrow> (Some e, r)
      | (None, fd', s') \<Rightarrow> high_mem_loop mix svc N ys fd' s')"
  by (induction xs arbitrary: fd s) (auto split: prod.splits option.splits)

lemma high_mem_feat_success:
  assumes "high_mem_feat mix svc N k fd s = (None, fd', s')"
  shows "fd' = map (filter (\<lambda>kv. fst kv \<noteq> k)) fd"
proof (cases "get_all k fd")
  case (Inl e)
  then show ?thesis using assms
    by (auto simp: high_mem_feat_def split: list.splits if_splits sum.splits prod.splits)
next
  case (Inr ts)
  have "del_all k fd = Inr (map (filter (\<lambda>kv. fst kv \<noteq> k)) fd)"
    using Inr by (rule get_all_del_all)
  then show ?thesis using assms Inr
    by (auto simp: high_mem_feat_def split: list.splits if_splits sum.splits prod.splits)
qed

lemma filter_filter_set:
  "map (filter (\<lambda>kv. fst kv \<notin> set ks)) (map (filter (\<lambda>kv. fst kv \<noteq> k)) fd)
     = map (filter (\<lambda>kv. fst kv \<notin> set (k # ks))) fd"
  by (induction fd) (auto intro: filter_cong)

lemma high_mem_loop_success:
  assumes "high_mem_loop mix svc N ks fd s = (None, fd', s')"
  shows "fd' = map (filter (\<lambda>kv. fst kv \<notin> set ks)) fd"
  using assms
proof (induction ks arbitrary: fd s)
  case Nil
  have "map (filter (\<lambda>kv. True)) fd = fd" by (induction fd) auto
  with Nil show ?case by simp
next
  case (Cons k ks)
  obtain r fd1 s1 where f: "high_mem_feat mix svc N k fd s = (r, fd1, s1)"
    by (cases "high_mem_feat mix svc N k fd s") auto
  have r: "r = None" using Cons.prems f by (cases r) auto
  have fd1: "fd1 = map (filter (\<lambda>kv. fst kv \<noteq> k)) fd"
    using f r high_mem_feat_success by blast
  have "high_mem_loop mix svc N ks fd1 s1 = (None, fd', s')"
    using Cons.prems f r by simp
  then have "fd' = map (filter (\<lambda>kv. fst kv \<notin> set ks)) fd1" by (rule Cons.IH)
  then show ?case unfolding fd1 filter_filter_set .
qed

lemma high_mem_feat_missing:
  assumes "p < length fd" and "\<not> dict_contains (fd ! p) k"
  shows "high_mem_feat mix svc N k fd s =
           (Some (if dict_contains (fd ! 0) k then KeyError k
                  else RuntimeError_UnknownFeature k (dict_keys (fd ! 0))), fd, s)"
proof -
  obtain d0 rest where fd: "fd = d0 # rest" using assms(1) by (cases fd) auto
  have g: "get_all k fd = Inl (KeyError k)" using assms by (rule get_all_missing)
  show ?thesis using g unfolding high_mem_feat_def fd by simp
qed

lemma low_mem_stops:
  assumes "load_all s fn pf = Inr fl" and "p < length fl" and "\<not> dict_contains (fl ! p) k"
  shows "fst (low_mem_loop mix svc fn pf (pre @ k # post) s) \<noteq> None \<and>
         snd (low_mem_loop mix svc fn pf (pre @ k # post) s) = snd (low_mem_loop mix svc fn pf pre s)"
proof (cases "low_mem_loop mix svc fn pf pre s")
  case (Pair r s')
  show ?thesis
  proof (cases r)
    case (Some e)
    then show ?thesis using Pair by (simp add: low_mem_loop_append)
  next
    case None
    have "pfiles s' = pfiles s" using low_mem_loop_keeps[of mix svc fn pf pre s] Pair by simp
    then have ld: "load_all s' fn pf = Inr fl" using assms(1) load_all_cong by metis
    have "isl (get_all k fl)" using get_all_missing[OF assms(2,3)] by simp
    then obtain e where "low_mem_feat mix svc fn pf k s' = (Some e, s')"
      using low_mem_feat_err[of s' fn pf k mix svc] ld by blast
    then show ?thesis using Pair None by (simp add: low_mem_loop_append)
  qed
qed

lemma high_mem_stops:
  assumes "p < length fd" and "\<not> dict_contains (fd ! p) k"
  shows "fst (high_mem_loop mix svc N (pre @ k # post) fd s) \<noteq> None \<and>
         snd (snd (high_mem_loop mix svc N (pre @ k # post) fd s))
           = snd (snd (high_mem_loop mix svc N pre fd s))"
proof (cases "high_mem_loop mix svc N pre fd s")
  case (fields r fd' s')
  show ?thesis
  proof (cases r)
    case (Some e)
    then show ?thesis using fields by (simp add: high_mem_loop_append)
  next
    case None
    have fd': "fd' = map (filter (\<lambda>kv. fst kv \<notin> set pre)) fd"
      using fields None high_mem_loop_success by blast
    have p': "p < length fd'" using assms(1) fd' by simp
    have a': "\<not> dict_contains (fd' ! p) k"
      using assms fd' by (simp add: dict_contains_filter)
    show ?thesis using fields None high_mem_feat_missing[OF p' a', of mix svc N s']
      by (simp add: high_mem_loop_append)
  qed
qed

lemma low_mem_read_cong:
  "pfiles s' = pfiles s \<Longrightarrow>
   low_mem_read mix s' fn k names acc n = low_mem_read mix s fn k names acc n"
  by (induction names arbitrary: acc n)
    (auto simp: load_tensors_def split: sum.splits option.splits)

lemma low_mem_read_append:
  "low_mem_read mix s fn k (xs @ ys) acc n =
     (case low_mem_read mix s fn k xs acc n of
        Inl e \<Rightarrow> Inl e
      | Inr (acc', n') \<Rightarrow> low_mem_read mix s fn k ys acc' n')"
  by (induction xs arbitrary: acc n) (auto split: sum.splits option.splits)

lemma load_all_nth:
  assumes "load_all s fn names = Inr fl" and "p < length fl"
  shows "load_tensors s (names ! p) fn = Inr (fl ! p)"
  using assms
proof (induction names arbitrary: fl p)
  case Nil
  then show ?case by simp
next
  case (Cons nm names)
  from Cons.prems(1) obtain d fl' where d: "load_tensors s nm fn = Inr d"
      and fl': "load_all s fn names = Inr fl'" and fl: "fl = d # fl'"
    by (auto split: sum.splits)
  show ?case
  proof (cases p)
    case 0
    then show ?thesis using d fl by simp
  next
    case (Suc q)
    then show ?thesis using Cons.IH[OF fl', of q] Cons.prems(2) fl by simp
  qed
qed

lemma low_mem_read_stops_at:
  assumes "load_all s fn names = Inr fl" and "p < length fl"
    and "\<not> dict_contains (fl ! p) k"
    and "\<not> isl (low_mem_read mix s fn k (take p names) None 0)"
  shows "low_mem_read mix s fn k names None 0
           = Inl (RuntimeError_UnknownFeature k (dict_keys (fl ! p)))"
proof -
  have len: "length fl = length names" using assms(1) by (rule load_all_length)
  then have split: "names = take p names @ (names ! p) # drop (Suc p) names"
    using assms(2) by (simp add: id_take_nth_drop)
  obtain acc' n' where pre: "low_mem_read mix s fn k (take p names) None 0 = Inr (acc', n')"
    using assms(4) by (cases "low_mem_read mix s fn k (take p names) None 0") auto
  have ld: "load_tensors s (names ! p) fn = Inr (fl ! p)"
    using assms(1,2) by (rule load_all_nth)
  have "low_mem_read mix s fn k (take p names @ (names ! p) # drop (Suc p) names) None 0
          = low_mem_read mix s fn k ((names ! p) # drop (Suc p) names) acc' n'"
    by (simp add: low_mem_read_append pre)
  also have "\<dots> = Inl (RuntimeError_UnknownFeature k (dict_keys (fl ! p)))"
    using ld assms(3) by simp
  finally show ?thesis using split by simp
qed

lemma convert_low_mem_state:
  "snd (convert_low_mem mix svc fname_dict fn s)
     = snd (low_mem_loop mix svc fn (part_files_of s) (requested_keys fname_dict) s)"
  by (cases "low_mem_loop mix svc fn (part_files_of s) (requested_keys fname_dict) s";
      cases "fst (low_mem_loop mix svc fn (part_files_of s) (requested_keys fname_dict) s)")
    (auto simp: convert_low_mem_def low_mem_trim_keeps)

lemma convert_low_mem_error:
  "fst (low_mem_loop mix svc fn (part_files_of s) (requested_keys fname_dict) s) = Some e \<Longrightarrow>
   fst (convert_low_mem mix svc fname_dict fn s) = Some e"
  by (cases "low_mem_loop mix svc fn (part_files_of s) (requested_keys fname_dict) s")
    (auto simp: convert_low_mem_def)

lemma convert_high_mem_out:
  assumes "load_all s fn (part_files_of s) = Inr fl"
  shows "metadata (snd (convert_high_mem mix svc fname_dict fn s))
           = metadata (snd (snd (high_mem_loop mix svc (int (length fl)) (requested_keys fname_dict) fl s))) \<and>
         wgfiles (snd (convert_high_mem mix svc fname_dict fn s))
           = wgfiles (snd (snd (high_mem_loop mix svc (int (length fl)) (requested_keys fname_dict) fl s)))"
  using assms
  by (cases "high_mem_loop mix svc (int (length fl)) (requested_keys fname_dict) fl s";
      cases "fst (high_mem_loop mix svc (int (length fl)) (requested_keys fname_dict) fl s)")
    (auto simp: convert_high_mem_def trim_all_keeps_out)

lemma convert_high_mem_error:
  assumes "load_all s fn (part_files_of s) = Inr fl"
    and "fst (high_mem_loop mix svc (int (length fl)) (requested_keys fname_dict) fl s) = Some e"
  shows "fst (convert_high_mem mix svc fname_dict fn s) = Some e"
  using assms
  by (cases "high_mem_loop mix svc (int (length fl)) (requested_keys fname_dict) fl s")
    (auto simp: convert_high_mem_def)

text \<open>
  C7, as the source has it. Let all partition files load, let \<open>k\<close> be a requested key and
  \<open>p\<close> a partition whose file lacks it. On both paths the call raises, and the metadata
  and the shard files it leaves are those of the same call asked for the keys before \<open>k\<close>
  only: nothing is written for \<open>k\<close>. On the low-memory path, when the keys before \<open>k\<close>
  were converted and the inner loop gets through the partitions before \<open>p\<close> (each has
  \<open>k\<close> and the tensors concatenate), the error is the \<^verbatim>\<open>RuntimeError\<close> that names
  \<open>k\<close> and lists all keys of the file of partition \<open>p\<close>. The high-memory path tests
  partition 0 only, on the mapping it holds in memory: when \<open>k\<close> is not there, its
  \<^verbatim>\<open>RuntimeError\<close> names \<open>k\<close> and lists the keys of partition 0 that are not yet
  converted; when \<open>k\<close> is there, \<^verbatim>\<open>t[feat]\<close> raises \<^verbatim>\<open>KeyError\<close> on the later
  partition.
\<close>

theorem missing_feature_stops_conversion:
  assumes req: "requested_keys fname_dict = pre @ k # post"
    and req_pre: "requested_keys fname_dict_pre = pre"
    and loads: "load_all s file_name (part_files_of s) = Inr fl"
    and p: "p < length fl"
    and absent: "\<not> dict_contains (fl ! p) k"
  shows "fst (convert_feat_to_wholegraph mix svc fname_dict file_name use_low_mem s) \<noteq> None \<and>
         metadata (snd (convert_feat_to_wholegraph mix svc fname_dict file_name use_low_mem s))
           = metadata (snd (convert_feat_to_wholegraph mix svc fname_dict_pre file_name use_low_mem s)) \<and>
         wgfiles (snd (convert_feat_to_wholegraph mix svc fname_dict file_name use_low_mem s))
           = wgfiles (snd (convert_feat_to_wholegraph mix svc fname_dict_pre file_name use_low_mem s)) \<and>
         (fst (low_mem_loop mix svc file_name (part_files_of s) pre s) = None \<and>
          \<not> isl (low_mem_read mix s file_name k (take p (part_files_of s)) None 0) \<longrightarrow>
            fst (convert_feat_to_wholegraph mix svc fname_dict file_name True s)
              = Some (RuntimeError_UnknownFeature k (dict_keys (fl ! p)))) \<and>
         (fst (high_mem_loop mix svc (int (length fl)) pre fl s) = None \<longrightarrow>
            fst (convert_feat_to_wholegraph mix svc fname_dict file_name False s)
              = Some (if dict_contains (fl ! 0) k \<and> k \<notin> set pre then KeyError k
                      else RuntimeError_UnknownFeature k
                             (filter (\<lambda>x. x \<notin> set pre) (dict_keys (fl ! 0)))))"
proof -
  let ?pf = "part_files_of s" and ?N = "int (length fl)"
  let ?L = "low_mem_loop mix svc file_name ?pf (pre @ k # post) s"
  let ?H = "high_mem_loop mix svc ?N (pre @ k # post) fl s"
  have L: "fst ?L \<noteq> None" "snd ?L = snd (low_mem_loop mix svc file_name ?pf pre s)"
    using low_mem_stops[OF loads p absent, of mix svc pre post] by simp_all
  have H: "fst ?H \<noteq> None" "snd (snd ?H) = snd (snd (high_mem_loop mix svc ?N pre fl s))"
    using high_mem_stops[OF p absent, of mix svc ?N pre post s] by simp_all
  have low_fails: "fst (convert_low_mem mix svc fname_dict file_name s) \<noteq> None"
    using L(1) convert_low_mem_error[of mix svc file_name s fname_dict] req by auto
  have high_fails: "fst (convert_high_mem mix svc fname_dict file_name s) \<noteq> None"
    using H(1) convert_high_mem_error[OF loads, of mix svc fname_dict] req by auto
  have low_state: "snd (convert_low_mem mix svc fname_dict file_name s)
                     = snd (convert_low_mem mix svc fname_dict_pre file_name s)"
    using L(2) req req_pre by (simp add: convert_low_mem_state)
  have high_state:
    "metadata (snd (convert_high_mem mix svc fname_dict file_name s))
       = metadata (snd (convert_high_mem mix svc fname_dict_pre file_name s))"
    "wgfiles (snd (convert_high_mem mix svc fname_dict file_name s))
       = wgfiles (snd (convert_high_mem mix svc fname_dict_pre file_name s))"
    using H(2) req req_pre convert_high_mem_out[OF loads, of mix svc fname_dict]
      convert_high_mem_out[OF loads, of mix svc fname_dict_pre] by simp_all
  have low_error: "fst (convert_low_mem mix svc fname_dict file_name s)
              = Some (RuntimeError_UnknownFeature k (dict_keys (fl ! p)))"
    if ok: "fst (low_mem_loop mix svc file_name ?pf pre s) = None"
      and through: "\<not> isl (low_mem_read mix s file_name k (take p ?pf) None 0)"
  proof -
    obtain s' where s': "low_mem_loop mix svc file_name ?pf pre s = (None, s')"
      using ok by (cases "low_mem_loop mix svc file_name ?pf pre s") auto
    have pf: "pfiles s' = pfiles s"
      using low_mem_loop_keeps[of mix svc file_name ?pf pre s] s' by simp
    have "low_mem_read mix s' file_name k ?pf None 0 = low_mem_read mix s file_name k ?pf None 0"
      using pf by (rule low_mem_read_cong)
    also have "\<dots> = Inl (RuntimeError_UnknownFeature k (dict_keys (fl ! p)))"
      using loads p absent through by (rule low_mem_read_stops_at)
    finally have rd: "low_mem_read mix s' file_name k ?pf None 0
                        = Inl (RuntimeError_UnknownFeature k (dict_keys (fl ! p)))" .
    have "low_mem_feat mix svc file_name ?pf k s'
            = (Some (RuntimeError_UnknownFeature k (dict_keys (fl ! p))), s')"
      using rd by (simp add: low_mem_feat_def)
    then have "fst ?L = Some (RuntimeError_UnknownFeature k (dict_keys (fl ! p)))"
      using s' by (simp add: low_mem_loop_append)
    then show ?thesis
      using convert_low_mem_error[of mix svc file_name s fname_dict] req by auto
  qed
  have high_error: "fst (convert_high_mem mix svc fname_dict file_name s)
              = Some (if dict_contains (fl ! 0) k \<and> k \<notin> set pre then KeyError k
                      else RuntimeError_UnknownFeature k
                             (filter (\<lambda>x. x \<notin> set pre) (dict_keys (fl ! 0))))"
    if ok: "fst (high_mem_loop mix svc ?N pre fl s) = None"
  proof -
    obtain fd' s' where r: "high_mem_loop mix svc ?N pre fl s = (None, fd', s')"
      using ok by (cases "high_mem_loop mix svc ?N pre fl s") auto
    have fd': "fd' = map (filter (\<lambda>kv. fst kv \<notin> set pre)) fl"
      using r high_mem_loop_success by blast
    have p': "p < length fd'" using p fd' by simp
    have a': "\<not> dict_contains (fd' ! p) k"
      using p absent fd' by (simp add: dict_contains_filter)
    have z: "fd' ! 0 = filter (\<lambda>kv. fst kv \<notin> set pre) (fl ! 0)"
    proof -
      have "0 < length fl" using p by (cases fl) auto
      then show ?thesis unfolding fd' by (rule nth_map)
    qed
    have "fst ?H = Some (if dict_contains (fd' ! 0) k then KeyError k
                  else RuntimeError_UnknownFeature k (dict_keys (fd' ! 0)))"
      using r high_mem_feat_missing[OF p' a', of mix svc ?N s']
      by (simp add: high_mem_loop_append)
    then have "fst ?H = Some (if dict_contains (fl ! 0) k \<and> k \<notin> set pre then KeyError k
                      else RuntimeError_UnknownFeature k
                             (filter (\<lambda>x. x \<notin> set pre) (dict_keys (fl ! 0))))"
      unfolding z by (simp add: dict_contains_filter dict_keys_filter)
    then show ?thesis using convert_high_mem_error[OF loads, of mix svc fname_dict] req by simp
  qed
  show ?thesis
    using low_fails high_fails low_state high_state low_error high_error
    by (cases use_low_mem) (simp_all add: convert_feat_to_wholegraph_def)
qed


theorem missing_feature_stops_conversion_witness:
  "requested_keys [(''n'', [''y'', ''x''])] = [''n/y''] @ ''n/x'' # [] \<and>
   requested_keys [(''n'', [''y''])] = [''n/y''] \<and>
   load_all gap_parts ''node_feat.dgl'' (part_files_of gap_parts) = Inr gap_files \<and>
   1 < length gap_files \<and>
   \<not> dict_contains (gap_files ! 1) ''n/x'' \<and>
   fst (convert_feat_to_wholegraph no_mixed always_done [(''n'', [''y'', ''x''])] ''node_feat.dgl'' True gap_parts)
     = Some (RuntimeError_UnknownFeature ''n/x'' [''n/y'']) \<and>
   fst (convert_feat_to_wholegraph no_mixed always_done [(''n'', [''y'', ''x''])] ''node_feat.dgl'' False gap_parts)
     = Some (KeyError ''n/x'') \<and>
   metadata (snd (convert_feat_to_wholegraph no_mixed always_done [(''n'', [''y'', ''x''])] ''node_feat.dgl'' True gap_parts))
     = metadata (snd (convert_feat_to_wholegraph no_mixed always_done [(''n'', [''y''])] ''node_feat.dgl'' True gap_parts)) \<and>
   wgfiles (snd (convert_feat_to_wholegraph no_mixed always_done [(''n'', [''y'', ''x''])] ''node_feat.dgl'' True gap_parts))
     = wgfiles (snd (convert_feat_to_wholegraph no_mixed always_done [(''n'', [''y''])] ''node_feat.dgl'' True gap_parts))"
proof -
  have h1: "requested_keys [(''n'', [''y'', ''x''])] = [''n/y''] @ ''n/x'' # []"
    by (simp add: requested_keys_def)
  have h2: "requested_keys [(''n'', [''y''])] = [''n/y'']"
    by (simp add: requested_keys_def)
  have h3: "load_all gap_parts ''node_feat.dgl'' (part_files_of gap_parts) = Inr gap_files"
    by code_simp
  have h4: "1 < length gap_files" by (simp add: gap_files_def)
  have h5: "\<not> dict_contains (gap_files ! 1) ''n/x''" by code_simp
  have l: "fst (low_mem_loop no_mixed always_done ''node_feat.dgl'' (part_files_of gap_parts) [''n/y''] gap_parts) = None"
    by code_simp
  have t: "\<not> isl (low_mem_read no_mixed gap_parts ''node_feat.dgl'' ''n/x''
                     (take 1 (part_files_of gap_parts)) None 0)"
    by code_simp
  have h: "fst (high_mem_loop no_mixed always_done (int (length gap_files)) [''n/y''] gap_files gap_parts) = None"
    by code_simp
  have c0: "dict_contains (gap_files ! 0) ''n/x''" by code_simp
  have ks: "dict_keys (gap_files ! 1) = [''n/y'']"
    by (simp add: gap_files_def dict_keys_def)
  from missing_feature_stops_conversion [OF h1 h2 h3 h4 h5, of no_mixed always_done True]
  show ?thesis using h1 h2 h3 h4 h5 l t h c0 ks by simp
qed

text \<open>
  C7, as the claim states it, fails on the high-memory path. A key that partition 0 has and
  partition 1 lacks raises a \<^verbatim>\<open>KeyError\<close> that lists no keys; and after \<^verbatim>\<open>n/y\<close> has
  been converted, the error for the unknown \<^verbatim>\<open>n/z\<close> lists \<^verbatim>\<open>n/x\<close> alone, although the
  file of partition 0 has \<^verbatim>\<open>n/x\<close> and \<^verbatim>\<open>n/y\<close>.
\<close>

theorem high_mem_missing_feature_error:
  "pfiles gap_parts (''part1'', ''node_feat.dgl'') = Some [(''n/y'', Tensor ''torch.int64'' [] [[9]])] \<and>
   \<not> dict_contains [(''n/y'', Tensor ''torch.int64'' [] [[9]])] ''n/x'' \<and>
   fst (convert_feat_to_wholegraph no_mixed always_done [(''n'', [''x''])] ''node_feat.dgl'' False gap_parts)
     = Some (KeyError ''n/x'') \<and>
   fst (convert_feat_to_wholegraph no_mixed always_done [(''n'', [''y'', ''z''])] ''node_feat.dgl'' False two_parts)
     = Some (RuntimeError_UnknownFeature ''n/z'' [''n/x'']) \<and>
   map_option dict_keys (pfiles two_parts (''part0'', ''node_feat.dgl'')) = Some [''n/x'', ''n/y'']"
  by code_simp

lemma missing_feature_any_mix:
  "fst (convert_feat_to_wholegraph mix always_done [(''n'', [''x''])] ''node_feat.dgl'' False gap_parts)
     = Some (KeyError ''n/x'') \<and>
   fst (convert_feat_to_wholegraph mix always_done [(''n'', [''y'', ''z''])] ''node_feat.dgl'' False two_parts)
     = Some (RuntimeError_UnknownFeature ''n/z'' [''n/x''])"
  by code_simp

end
